theory Spec2Isabelle
  imports Complex_Main "HOL-Library.Multiset" "HOL-Library.Sublist"
begin

section \<open>Agent-RAG retriever: temporal decay, fusion, query builder, adapter, coordinator\<close>

text \<open>
  A shallow embedding of the Go packages \<^verbatim>\<open>retriever\<close> and \<^verbatim>\<open>graphql\<close> of the
  agent-rag module.

  Conventions of the embedding.
  \<^item> Go's \<^verbatim>\<open>float64\<close> scores, weights and half-lives are ideal reals in every
    computation: rounding, NaN and infinities of IEEE arithmetic are outside the model of
    the arithmetic. The fields of a configuration struct in memory are the exception:
    validation compares them, and a comparison lets NaN through, so a struct holds values
    of the type \<open>float64\<close> below, with NaN and both infinities.
  \<^item> A configuration reaches the retriever and the merger as a pointer to a struct that
    the caller goes on holding. The structs live in a store, pointers are addresses, and
    every method that reads through a pointer takes the store as it is at the call.
  \<^item> A \<^verbatim>\<open>time.Time\<close> is an instant counted in integer nanoseconds; a
    \<^verbatim>\<open>time.Duration\<close> is a signed 64-bit count of nanoseconds.
  \<^item> A Go \<^verbatim>\<open>string\<close> is a byte list.
  \<^item> Every \<^verbatim>\<open>(value, error)\<close> return is a sum with the error on the left.
\<close>

subsection \<open>errors.go: sentinel errors and formatted errors\<close>

datatype error =
    ErrInvalidWeight
  | ErrInvalidHalfLife
  | ErrInvalidMinWeight
  | ErrNoResults
  | ErrIndexNotFound
  | ErrVectorMismatch
  | ErrClosedRetriever
  | Errorf string                \<comment> \<open>\<^verbatim>\<open>fmt.Errorf\<close> with a finished message\<close>
  | ErrorfW string error         \<comment> \<open>\<^verbatim>\<open>fmt.Errorf("prefix: %w", err)\<close>\<close>
  | Transport string             \<comment> \<open>an error value produced outside this module (net/http, encoding/json)\<close>

fun Error :: "error \<Rightarrow> string" where
  "Error ErrInvalidWeight = ''weight must be between 0 and 1''"
| "Error ErrInvalidHalfLife = ''half-life must be positive''"
| "Error ErrInvalidMinWeight = ''minimum weight must be between 0 and 1''"
| "Error ErrNoResults = ''no results found''"
| "Error ErrIndexNotFound = ''index not found''"
| "Error ErrVectorMismatch = ''vector dimension mismatch''"
| "Error ErrClosedRetriever = ''retriever is closed''"
| "Error (Errorf s) = s"
| "Error (ErrorfW p e) = p @ Error e"
| "Error (Transport s) = s"

subsection \<open>Time\<close>

type_synonym Time = int
type_synonym Duration = int

definition minDuration :: Duration where
  "minDuration = - (2 ^ 63)"

definition maxDuration :: Duration where
  "maxDuration = 2 ^ 63 - 1"

definition Sub :: "Time \<Rightarrow> Time \<Rightarrow> Duration" where
  \<comment> \<open>\<^verbatim>\<open>t.Sub(u)\<close>: the difference, saturated to the range of a Duration.\<close>
  "Sub t u =
     (let d = t - u
      in if d < minDuration then minDuration
         else if d > maxDuration then maxDuration
         else d)"

definition Minute :: Duration where
  "Minute = 60 * 1000000000"

definition quo :: "int \<Rightarrow> int \<Rightarrow> int" where
  \<comment> \<open>Go's integer \<^verbatim>\<open>/\<close>, which truncates towards zero.\<close>
  "quo a b = (if (a < 0) = (b < 0) then \<bar>a\<bar> div \<bar>b\<bar> else - (\<bar>a\<bar> div \<bar>b\<bar>))"

definition rem :: "int \<Rightarrow> int \<Rightarrow> int" where
  \<comment> \<open>Go's integer \<^verbatim>\<open>%\<close>, with the sign of the dividend.\<close>
  "rem a b = a - quo a b * b"

definition Minutes :: "Duration \<Rightarrow> real" where
  \<comment> \<open>\<^verbatim>\<open>d.Minutes()\<close>: whole minutes plus the remaining nanoseconds as a fraction.\<close>
  "Minutes d = real_of_int (quo d Minute) + real_of_int (rem d Minute) / (60 * 1000000000)"

subsection \<open>temporal.go: TemporalDecay\<close>

record TemporalDecay =
  halfLifeMinutes :: real
  minWeight :: real
  enabled :: bool

definition NewTemporalDecay :: "real \<Rightarrow> real \<Rightarrow> bool \<Rightarrow> TemporalDecay" where
  "NewTemporalDecay h m e = \<lparr> halfLifeMinutes = h, minWeight = m, enabled = e \<rparr>"

definition Ln2 :: real where
  "Ln2 = ln 2"

text \<open>
  With a half-life of 0 the quotient below is an IEEE infinity or NaN in Go and 0 in HOL;
  \<open>Validate\<close> rejects such a configuration and every property below assumes a positive
  half-life.
\<close>

definition Apply :: "TemporalDecay \<Rightarrow> real \<Rightarrow> Time \<Rightarrow> Time \<Rightarrow> real" where
  "Apply td score timestamp currentTime =
     (if \<not> enabled td then score
      else
        let timeDiff = Minutes (Sub currentTime timestamp);
            decayFactor = exp (- Ln2 * timeDiff / halfLifeMinutes td);
            decayFactor = (if decayFactor < minWeight td then minWeight td else decayFactor)
        in score * decayFactor)"

definition CalculateHalfLifeFromRetention :: "real \<Rightarrow> real \<Rightarrow> real" where
  "CalculateHalfLifeFromRetention retentionMinutes targetRetention =
     (if targetRetention \<le> 0 \<or> targetRetention \<ge> 1 then 30
      else - Ln2 * retentionMinutes / ln targetRetention)"


subsection \<open>types.go: results, configuration, queries\<close>

text \<open>
  A decoded JSON value (\<^verbatim>\<open>interface{}\<close> as produced by \<^verbatim>\<open>encoding/json\<close>). An object is
  a Go map; it is kept as an association list read through \<open>map_of\<close>.
\<close>

datatype json =
    JNull
  | JBool bool
  | JNum real
  | JStr string
  | JArr "json list"
  | JObj "(string \<times> json) list"

type_synonym SourceType = string

definition SourceStatic :: SourceType where
  "SourceStatic = ''static''"

definition SourceConversation :: SourceType where
  "SourceConversation = ''conversation''"

record SearchResult =
  ID :: string
  DocID :: string
  Score :: real
  Text :: string
  Metadata :: "string \<rightharpoonup> json"
  Source :: SourceType
  Timestamp :: "Time option"

type_synonym SearchResults = "SearchResult list"

definition zeroSearchResult :: SearchResult where
  \<comment> \<open>The zero value of the struct, which Go returns when a map has no entry for a key.\<close>
  "zeroSearchResult =
     \<lparr> ID = [], DocID = [], Score = 0, Text = [], Metadata = Map.empty,
       Source = [], Timestamp = None \<rparr>"

text \<open>
  A \<^verbatim>\<open>float64\<close> field of a struct in memory: a finite value, kept as the real it denotes,
  an infinity, or NaN. The comparisons are those of IEEE 754, which Go's \<^verbatim>\<open><\<close> and
  \<^verbatim>\<open><=\<close> compute: every comparison with NaN is false. (\<^verbatim>\<open>x > y\<close> is \<open>less64 y x\<close>.)
\<close>

datatype float64 = Fin (toReal: real) | PosInf | NegInf | NaN

fun less64 :: "float64 \<Rightarrow> float64 \<Rightarrow> bool" where
  "less64 (Fin a) (Fin b) \<longleftrightarrow> a < b"
| "less64 (Fin a) PosInf \<longleftrightarrow> True"
| "less64 NegInf (Fin b) \<longleftrightarrow> True"
| "less64 NegInf PosInf \<longleftrightarrow> True"
| "less64 _ _ \<longleftrightarrow> False"

fun le64 :: "float64 \<Rightarrow> float64 \<Rightarrow> bool" where
  "le64 (Fin a) (Fin b) \<longleftrightarrow> a \<le> b"
| "le64 (Fin a) PosInf \<longleftrightarrow> True"
| "le64 NegInf (Fin b) \<longleftrightarrow> True"
| "le64 NegInf PosInf \<longleftrightarrow> True"
| "le64 NegInf NegInf \<longleftrightarrow> True"
| "le64 PosInf PosInf \<longleftrightarrow> True"
| "le64 _ _ \<longleftrightarrow> False"

text \<open>
  The struct \<^verbatim>\<open>MergeConfig\<close>, over the type \<open>'f\<close> of its four \<^verbatim>\<open>float64\<close> fields. It is used
  at two types: \<open>MergeConfigStruct\<close> is the struct as it lies in memory, which \<open>Validate\<close>
  inspects; \<open>MergeConfig\<close> is a struct whose four fields are finite, each read as a real,
  which is what the arithmetic of a merge works with.
\<close>

record 'f MergeConfigOf =
  StaticWeight :: 'f
  ConversationWeight :: 'f
  TemporalDecayEnabled :: bool
  HalfLifeMinutes :: 'f
  MinTemporalWeight :: 'f
  Algorithm :: string
  RRFK :: int

type_synonym MergeConfigStruct = "float64 MergeConfigOf"

type_synonym MergeConfig = "real MergeConfigOf"


definition ideal :: "MergeConfigStruct \<Rightarrow> MergeConfig" where
  \<comment> \<open>The struct as the arithmetic reads it. A field that is not finite has no real
      counterpart: \<open>toReal\<close> says nothing about it, and neither does any statement below
      about a score computed from it.\<close>
  "ideal c =
     \<lparr> StaticWeight = toReal (StaticWeight c),
       ConversationWeight = toReal (ConversationWeight c),
       TemporalDecayEnabled = TemporalDecayEnabled c,
       HalfLifeMinutes = toReal (HalfLifeMinutes c),
       MinTemporalWeight = toReal (MinTemporalWeight c),
       Algorithm = Algorithm c, RRFK = RRFK c \<rparr>"

definition structOf :: "MergeConfig \<Rightarrow> MergeConfigStruct" where
  \<comment> \<open>The struct in memory whose fields hold the finite values of \<open>c\<close>.\<close>
  "structOf c =
     \<lparr> StaticWeight = Fin (StaticWeight c),
       ConversationWeight = Fin (ConversationWeight c),
       TemporalDecayEnabled = TemporalDecayEnabled c,
       HalfLifeMinutes = Fin (HalfLifeMinutes c),
       MinTemporalWeight = Fin (MinTemporalWeight c),
       Algorithm = Algorithm c, RRFK = RRFK c \<rparr>"

definition DefaultMergeConfig :: MergeConfig where
  \<comment> \<open>The field values of the struct \<^verbatim>\<open>DefaultMergeConfig()\<close> allocates.\<close>
  "DefaultMergeConfig =
     \<lparr> StaticWeight = 6 / 10, ConversationWeight = 4 / 10, TemporalDecayEnabled = True,
       HalfLifeMinutes = 30, MinTemporalWeight = 1 / 100, Algorithm = ''weighted'',
       RRFK = 60 \<rparr>"

definition Validate :: "MergeConfigStruct \<Rightarrow> error option" where
  "Validate c =
     (if less64 (StaticWeight c) (Fin 0) \<or> less64 (Fin 1) (StaticWeight c)
      then Some ErrInvalidWeight
      else if less64 (ConversationWeight c) (Fin 0) \<or> less64 (Fin 1) (ConversationWeight c)
      then Some ErrInvalidWeight
      else if le64 (HalfLifeMinutes c) (Fin 0) then Some ErrInvalidHalfLife
      else if less64 (MinTemporalWeight c) (Fin 0) \<or> less64 (Fin 1) (MinTemporalWeight c)
      then Some ErrInvalidMinWeight
      else None)"

subsection \<open>Configuration structs in memory\<close>

text \<open>
  The store holds the \<^verbatim>\<open>MergeConfig\<close> structs of a run; a \<^verbatim>\<open>*MergeConfig\<close> that is not nil
  is the address of one of them. \<open>alloc\<close> is \<^verbatim>\<open>&MergeConfig{...}\<close>, \<open>deref\<close> reads through a
  pointer, and \<open>assign\<close> is an assignment to the struct by whoever holds the pointer. The
  addresses below \<open>allocated\<close> are the ones in use.
\<close>

type_synonym addr = nat

record store =
  cells :: "addr \<Rightarrow> MergeConfigStruct"
  allocated :: nat

definition deref :: "store \<Rightarrow> addr \<Rightarrow> MergeConfigStruct" where
  "deref \<sigma> p = cells \<sigma> p"


definition alloc :: "store \<Rightarrow> MergeConfigStruct \<Rightarrow> store \<times> addr" where
  "alloc \<sigma> c =
     (\<sigma>\<lparr>cells := (cells \<sigma>)(allocated \<sigma> := c), allocated := Suc (allocated \<sigma>)\<rparr>,
      allocated \<sigma>)"

record TimeRange =
  Since :: Time
  Until :: Time

text \<open>A \<^verbatim>\<open>float32\<close> vector element is kept as the exact real it denotes.\<close>

record Query =
  qText :: string
  qVector :: "real list"
  qFilters :: "(string \<times> json) list"
  qLimit :: int
  qTimeRange :: "TimeRange option"
  qIncludeMeta :: bool

record IndexConfig =
  StaticIndexName :: string
  ConversationIndexName :: string
  Vectorizer :: string
  DistanceMetric :: string

definition DefaultIndexConfig :: IndexConfig where
  "DefaultIndexConfig =
     \<lparr> StaticIndexName = ''KnowledgeBase'', ConversationIndexName = ''Conversation'',
       Vectorizer = ''text2vec-transformers'', DistanceMetric = ''cosine'' \<rparr>"

subsection \<open>temporal.go: the bulk form\<close>

definition ApplyToResults :: "TemporalDecay \<Rightarrow> SearchResults \<Rightarrow> Time \<Rightarrow> SearchResults" where
  "ApplyToResults td results currentTime =
     map (\<lambda>result.
            case Timestamp result of
              Some ts \<Rightarrow>
                if Source result = SourceConversation
                then result\<lparr>Score := Apply td (Score result) ts currentTime\<rparr>
                else result
            | None \<Rightarrow> result)
         results"

subsection \<open>merger.go: ResultMerger\<close>

text \<open>
  The struct \<^verbatim>\<open>ResultMerger\<close>, over the type \<open>'c\<close> of its field \<^verbatim>\<open>config\<close>. As the struct is
  stored (\<open>ResultMergerPtr\<close>) the field is the pointer the merger was given, so that the
  configuration a merge works with is whatever the struct behind the pointer holds when
  the merge runs: \<open>readMerger\<close>. The merge functions below are written on \<open>ResultMerger\<close>,
  the merger with the configuration a merge reads in place of the pointer. The decay
  calculator is built from the field values at the time the pointer is installed and is
  private to the merger.
\<close>

record 'c ResultMergerOf =
  rm_config :: 'c
  rm_temporalDecay :: TemporalDecay

type_synonym ResultMergerPtr = "addr ResultMergerOf"

type_synonym ResultMerger = "MergeConfig ResultMergerOf"

definition readMerger :: "store \<Rightarrow> ResultMergerPtr \<Rightarrow> ResultMerger" where
  "readMerger \<sigma> rm =
     \<lparr> rm_config = ideal (deref \<sigma> (rm_config rm)),
       rm_temporalDecay = rm_temporalDecay rm \<rparr>"

definition NewResultMerger :: "store \<Rightarrow> addr \<Rightarrow> error + ResultMergerPtr" where
  "NewResultMerger \<sigma> config =
     (case Validate (deref \<sigma> config) of
        Some err \<Rightarrow> Inl err
      | None \<Rightarrow>
          (let cfg = ideal (deref \<sigma> config)
           in Inr \<lparr> rm_config = config,
                    rm_temporalDecay =
                      NewTemporalDecay (HalfLifeMinutes cfg) (MinTemporalWeight cfg)
                        (TemporalDecayEnabled cfg) \<rparr>))"

definition SetConfig ::
  "ResultMergerPtr \<Rightarrow> store \<Rightarrow> addr \<Rightarrow> error option \<times> ResultMergerPtr" where
  "SetConfig rm \<sigma> config =
     (case Validate (deref \<sigma> config) of
        Some err \<Rightarrow> (Some err, rm)
      | None \<Rightarrow>
          (let cfg = ideal (deref \<sigma> config)
           in (None,
               \<lparr> rm_config = config,
                 rm_temporalDecay =
                   NewTemporalDecay (HalfLifeMinutes cfg) (MinTemporalWeight cfg)
                     (TemporalDecayEnabled cfg) \<rparr>)))"

text \<open>
  The two maps a merge fills: \<^verbatim>\<open>scoreMap\<close> and \<^verbatim>\<open>resultMap\<close>, both keyed by
  identifier.
\<close>

type_synonym mergeMaps = "(string \<rightharpoonup> real) \<times> (string \<rightharpoonup> SearchResult)"

fun weightedStaticLoop :: "ResultMerger \<Rightarrow> SearchResults \<Rightarrow> mergeMaps \<Rightarrow> mergeMaps" where
  "weightedStaticLoop rm [] (scoreMap, resultMap) = (scoreMap, resultMap)"
| "weightedStaticLoop rm (result # rest) (scoreMap, resultMap) =
     (let weightedScore = Score result * StaticWeight (rm_config rm)
      in weightedStaticLoop rm rest
           (scoreMap(ID result \<mapsto> weightedScore), resultMap(ID result \<mapsto> result)))"

definition convWeightedScore :: "ResultMerger \<Rightarrow> Time \<Rightarrow> SearchResult \<Rightarrow> real" where
  \<comment> \<open>The \<^verbatim>\<open>weightedScore\<close> computed at the head of the conversation loop's body.\<close>
  "convWeightedScore rm currentTime result =
     (case Timestamp result of
        Some ts \<Rightarrow>
          (let baseScore = Score result * ConversationWeight (rm_config rm)
           in Apply (rm_temporalDecay rm) baseScore ts currentTime)
      | None \<Rightarrow> Score result * ConversationWeight (rm_config rm))"

fun weightedConvLoop ::
  "ResultMerger \<Rightarrow> Time \<Rightarrow> SearchResults \<Rightarrow> mergeMaps \<Rightarrow> mergeMaps" where
  "weightedConvLoop rm currentTime [] (scoreMap, resultMap) = (scoreMap, resultMap)"
| "weightedConvLoop rm currentTime (result # rest) (scoreMap, resultMap) =
     (let weightedScore = convWeightedScore rm currentTime result
      in case scoreMap (ID result) of
           Some existingScore \<Rightarrow>
             weightedConvLoop rm currentTime rest
               (scoreMap(ID result \<mapsto> existingScore + weightedScore), resultMap)
         | None \<Rightarrow>
             weightedConvLoop rm currentTime rest
               (scoreMap(ID result \<mapsto> weightedScore), resultMap(ID result \<mapsto> result)))"

text \<open>
  Ranging over a Go map visits its keys in an order the runtime chooses. The order is an
  argument of the model, \<open>keys\<close>; it is a legal order for a map \<open>m\<close> when it lists every
  key of \<open>m\<close> once.
\<close>

definition iterationOrder :: "string list \<Rightarrow> (string \<rightharpoonup> 'a) \<Rightarrow> bool" where
  "iterationOrder keys m \<longleftrightarrow> distinct keys \<and> set keys = dom m"

definition collectResults :: "mergeMaps \<Rightarrow> string list \<Rightarrow> SearchResults" where
  \<comment> \<open>The loop that turns the two maps back into a slice.\<close>
  "collectResults maps keys =
     map (\<lambda>id.
            let score = (case fst maps id of Some s \<Rightarrow> s | None \<Rightarrow> 0);
                result = (case snd maps id of Some r \<Rightarrow> r | None \<Rightarrow> zeroSearchResult)
            in result\<lparr>Score := score\<rparr>)
         keys"

text \<open>
  \<^verbatim>\<open>sort.Slice\<close> with the comparison \<^verbatim>\<open>results[i].Score > results[j].Score\<close>. The library
  sort is not stable: it returns some arrangement of the slice in which no element is
  followed by one of greater score. The model sorts stably; the arrangements an unstable
  sort may return are the stable sorts of the rearrangements of its input, so where the
  input order is itself a free argument (the key order above, \<open>tieOrder\<close> below) every
  outcome of the library sort is covered.
\<close>

definition sortByScoreDesc :: "SearchResults \<Rightarrow> SearchResults" where
  "sortByScoreDesc results = sort_key (\<lambda>r. - Score r) results"

definition weightedMaps :: "ResultMerger \<Rightarrow> SearchResults \<Rightarrow> SearchResults \<Rightarrow> Time \<Rightarrow> mergeMaps" where
  "weightedMaps rm staticResults convResults currentTime =
     weightedConvLoop rm currentTime convResults
       (weightedStaticLoop rm staticResults (Map.empty, Map.empty))"

definition mergeWeighted ::
  "ResultMerger \<Rightarrow> SearchResults \<Rightarrow> SearchResults \<Rightarrow> Time \<Rightarrow> string list \<Rightarrow> SearchResults" where
  "mergeWeighted rm staticResults convResults currentTime keys =
     sortByScoreDesc
       (collectResults (weightedMaps rm staticResults convResults currentTime) keys)"

text \<open>
  In RRF mode the rank score \<^verbatim>\<open>1.0 / (k + float64(rank))\<close> is an IEEE infinity
  when \<open>k + rank = 0\<close> and is 0 in HOL; no property below depends on its value there.
\<close>

fun rrfStaticLoop ::
  "ResultMerger \<Rightarrow> real \<Rightarrow> nat \<Rightarrow> SearchResults \<Rightarrow> mergeMaps \<Rightarrow> mergeMaps" where
  "rrfStaticLoop rm k rank [] (scoreMap, resultMap) = (scoreMap, resultMap)"
| "rrfStaticLoop rm k rank (result # rest) (scoreMap, resultMap) =
     (let rankScore = 1 / (k + real rank);
          weightedScore = rankScore * StaticWeight (rm_config rm)
      in rrfStaticLoop rm k (Suc rank) rest
           (scoreMap(ID result \<mapsto> weightedScore), resultMap(ID result \<mapsto> result)))"

fun rrfConvLoop ::
  "ResultMerger \<Rightarrow> real \<Rightarrow> nat \<Rightarrow> SearchResults \<Rightarrow> mergeMaps \<Rightarrow> mergeMaps" where
  "rrfConvLoop rm k rank [] (scoreMap, resultMap) = (scoreMap, resultMap)"
| "rrfConvLoop rm k rank (result # rest) (scoreMap, resultMap) =
     (let rankScore = 1 / (k + real rank);
          weightedScore = rankScore * ConversationWeight (rm_config rm)
      in case scoreMap (ID result) of
           Some existingScore \<Rightarrow>
             rrfConvLoop rm k (Suc rank) rest
               (scoreMap(ID result \<mapsto> existingScore + weightedScore), resultMap)
         | None \<Rightarrow>
             rrfConvLoop rm k (Suc rank) rest
               (scoreMap(ID result \<mapsto> weightedScore), resultMap(ID result \<mapsto> result)))"

definition rearrange :: "nat list \<Rightarrow> 'a list \<Rightarrow> 'a list" where
  \<comment> \<open>The elements of \<open>xs\<close> at the positions \<open>tieOrder\<close> names, positions out of range dropped.\<close>
  "rearrange tieOrder xs = map (\<lambda>i. xs ! i) (filter (\<lambda>i. i < length xs) tieOrder)"

definition legalTieOrder :: "nat list \<Rightarrow> 'a list \<Rightarrow> bool" where
  \<comment> \<open>The tie orders a run can meet: the positions of \<open>xs\<close>, each once.\<close>
  "legalTieOrder tieOrder xs \<longleftrightarrow> mset tieOrder = mset [0..<length xs]"

definition rrfMaps ::
  "ResultMerger \<Rightarrow> SearchResults \<Rightarrow> SearchResults \<Rightarrow> Time \<Rightarrow> nat list \<Rightarrow> mergeMaps" where
  "rrfMaps rm staticResults convResults currentTime tieOrder =
     (let k = real_of_int (RRFK (rm_config rm));
          maps = rrfStaticLoop rm k 0 staticResults (Map.empty, Map.empty);
          decayedConv = ApplyToResults (rm_temporalDecay rm) convResults currentTime;
          decayedConv = sortByScoreDesc (rearrange tieOrder decayedConv)
      in rrfConvLoop rm k 0 decayedConv maps)"

definition mergeRRF ::
  "ResultMerger \<Rightarrow> SearchResults \<Rightarrow> SearchResults \<Rightarrow> Time \<Rightarrow> nat list \<Rightarrow> string list
     \<Rightarrow> SearchResults" where
  "mergeRRF rm staticResults convResults currentTime tieOrder keys =
     sortByScoreDesc
       (collectResults (rrfMaps rm staticResults convResults currentTime tieOrder) keys)"

text \<open>
  The choices the Go runtime makes during one merge: the order in which the final loop
  visits \<^verbatim>\<open>scoreMap\<close>, and (RRF only) the arrangement of the decayed conversation list
  that reaches the sort, which decides how equal scores are ranked.
\<close>

record choices =
  keyOrder :: "string list"
  tieOrder :: "nat list"

definition Merge ::
  "ResultMerger \<Rightarrow> SearchResults \<Rightarrow> SearchResults \<Rightarrow> Time \<Rightarrow> choices \<Rightarrow> SearchResults" where
  "Merge rm staticResults convResults currentTime ch =
     (if Algorithm (rm_config rm) = ''rrf'' \<or> Algorithm (rm_config rm) = ''reciprocal_rank_fusion''
      then mergeRRF rm staticResults convResults currentTime (tieOrder ch) (keyOrder ch)
      else mergeWeighted rm staticResults convResults currentTime (keyOrder ch))"

definition mergeMapsOf ::
  "ResultMerger \<Rightarrow> SearchResults \<Rightarrow> SearchResults \<Rightarrow> Time \<Rightarrow> choices \<Rightarrow> mergeMaps" where
  \<comment> \<open>The maps the configured algorithm has filled when its final loop starts.\<close>
  "mergeMapsOf rm staticResults convResults currentTime ch =
     (if Algorithm (rm_config rm) = ''rrf'' \<or> Algorithm (rm_config rm) = ''reciprocal_rank_fusion''
      then rrfMaps rm staticResults convResults currentTime (tieOrder ch)
      else weightedMaps rm staticResults convResults currentTime)"


subsection \<open>The formatting verbs of \<^verbatim>\<open>fmt.Sprintf\<close> the builder uses\<close>

definition digit :: "nat \<Rightarrow> char" where
  "digit d =
     (if d = 0 then CHR ''0'' else if d = 1 then CHR ''1'' else if d = 2 then CHR ''2''
      else if d = 3 then CHR ''3'' else if d = 4 then CHR ''4'' else if d = 5 then CHR ''5''
      else if d = 6 then CHR ''6'' else if d = 7 then CHR ''7'' else if d = 8 then CHR ''8''
      else CHR ''9'')"

fun formatNat :: "nat \<Rightarrow> string" where
  "formatNat n = (if n < 10 then [digit n] else formatNat (n div 10) @ [digit (n mod 10)])"

declare formatNat.simps [simp del]

definition formatInt :: "int \<Rightarrow> string" where
  \<comment> \<open>The verb \<^verbatim>\<open>%d\<close>.\<close>
  "formatInt i = (if i < 0 then ''-'' @ formatNat (nat (- i)) else formatNat (nat i))"

definition roundHalfEven :: "real \<Rightarrow> int" where
  "roundHalfEven x =
     (let f = \<lfloor>x\<rfloor>; r = x - of_int f
      in if r < 1 / 2 then f
         else if 1 / 2 < r then f + 1
         else if even f then f else f + 1)"

definition padZeros :: "nat \<Rightarrow> string \<Rightarrow> string" where
  "padZeros w s = replicate (w - length s) (CHR ''0'') @ s"

definition formatFixed :: "nat \<Rightarrow> real \<Rightarrow> string" where
  \<comment> \<open>The verb \<^verbatim>\<open>%.Nf\<close> on a finite value: the exact value rounded to \<open>N\<close> fractional
      digits, ties to even, the sign kept even when the digits are all zero.\<close>
  "formatFixed prec x =
     (let scaled = nat (roundHalfEven (\<bar>x\<bar> * 10 ^ prec));
          whole = scaled div 10 ^ prec;
          frac = scaled mod 10 ^ prec
      in (if x < 0 then ''-'' else [])
         @ formatNat whole
         @ (if prec = 0 then [] else ''.'' @ padZeros prec (formatNat frac)))"

fun Join :: "string list \<Rightarrow> string \<Rightarrow> string" where
  \<comment> \<open>\<^verbatim>\<open>strings.Join\<close>\<close>
  "Join [] sep = []"
| "Join [x] sep = x"
| "Join (x # y # rest) sep = x @ sep @ Join (y # rest) sep"

definition ReplaceAll :: "string \<Rightarrow> char \<Rightarrow> string \<Rightarrow> string" where
  \<comment> \<open>\<^verbatim>\<open>strings.ReplaceAll(s, old, new)\<close> for a one-byte \<open>old\<close>, the only use the builder makes.\<close>
  "ReplaceAll s old new = concat (map (\<lambda>c. if c = old then new else [c]) s)"

subsection \<open>graphql/builder.go and helpers.go\<close>

definition GetResultPath :: "string \<Rightarrow> string list" where
  "GetResultPath className = [''Get'', className]"

record QueryBuilder =
  className :: string
  limit :: int

definition NewQueryBuilder :: "string \<Rightarrow> int \<Rightarrow> QueryBuilder" where
  "NewQueryBuilder name n = \<lparr> className = name, limit = n \<rparr>"

definition formatVector :: "real list \<Rightarrow> string" where
  "formatVector vector =
     (if length vector = 0 then [] else Join (map (formatFixed 6) vector) '','')"

definition escapeGraphQL :: "string \<Rightarrow> string" where
  "escapeGraphQL s =
     (let s = ReplaceAll s (CHR 0x5C) [CHR 0x5C, CHR 0x5C];
          s = ReplaceAll s (CHR 0x22) [CHR 0x5C, CHR 0x22];
          s = ReplaceAll s (CHR 0x0A) [CHR 0x5C, CHR ''n''];
          s = ReplaceAll s (CHR 0x0D) [CHR 0x5C, CHR ''r''];
          s = ReplaceAll s (CHR 0x09) [CHR 0x5C, CHR ''t'']
      in s)"

definition buildFieldList :: "QueryBuilder \<Rightarrow> string" where
  "buildFieldList qb =
     (if className qb = ''Conversation'' then ''message,speaker,timestamp''
      else ''title,content'')"

definition HybridQuery :: "QueryBuilder \<Rightarrow> string \<Rightarrow> real list \<Rightarrow> real \<Rightarrow> string" where
  "HybridQuery qb queryText vector alpha =
     (let vectorStr = formatVector vector;
          escapedText = escapeGraphQL queryText
      in ''{ Get { '' @ className qb @ ''(hybrid:{query:'' @ [CHR 0x22] @ escapedText
         @ [CHR 0x22] @ '',vector:['' @ vectorStr @ ''],alpha:'' @ formatFixed 2 alpha
         @ ''},limit:'' @ formatInt (limit qb) @ ''){_additional{id,score,vector}''
         @ buildFieldList qb @ ''}}}'')"

definition NearVectorQuery :: "QueryBuilder \<Rightarrow> real list \<Rightarrow> real \<Rightarrow> string" where
  "NearVectorQuery qb vector certainty =
     (let vectorStr = formatVector vector;
          certaintyClause =
            (if certainty > 0 then '',certainty:'' @ formatFixed 4 certainty else [])
      in ''{ Get { '' @ className qb @ ''(nearVector:{vector:['' @ vectorStr @ '']''
         @ certaintyClause @ ''},limit:'' @ formatInt (limit qb)
         @ ''){_additional{id,score,vector}'' @ buildFieldList qb @ ''}}}'')"

text \<open>
  The dynamically typed \<^verbatim>\<open>Value\<close> of a filter, for the types the module's callers pass;
  \<open>formatValue\<close> is the verb \<^verbatim>\<open>%v\<close> on them.
\<close>

datatype filterValue = VString string | VInt int | VBool bool

fun formatValue :: "filterValue \<Rightarrow> string" where
  "formatValue (VString s) = s"
| "formatValue (VInt i) = formatInt i"
| "formatValue (VBool b) = (if b then ''true'' else ''false'')"

datatype WhereFilter =
  WhereFilter (Operator: string) (Path: "string list") (Value: "filterValue option")
    (Operands: "WhereFilter list")

fun buildWhereRecursive :: "WhereFilter \<Rightarrow> string" where
  "buildWhereRecursive (WhereFilter operator path val operands) =
     (let parts = [];
          parts = (if operator \<noteq> [] then parts @ [''operator:'' @ operator] else parts);
          parts = (if length path > 0
                   then parts @ [''path:['' @ Join path '','' @ '']''] else parts);
          parts = (case val of
                     Some v \<Rightarrow> parts @ [''value:'' @ formatValue v]
                   | None \<Rightarrow> parts);
          parts = (if length operands > 0
                   then parts @ [''operands:['' @ Join (map buildWhereRecursive operands) '',''
                                  @ '']'']
                   else parts)
      in ''{'' @ Join parts '','' @ ''}'')"

definition BuildWhereClause :: "QueryBuilder \<Rightarrow> WhereFilter \<Rightarrow> string" where
  "BuildWhereClause qb flt = buildWhereRecursive flt"

definition ConversationQuery :: "QueryBuilder \<Rightarrow> real list \<Rightarrow> string \<Rightarrow> string" where
  "ConversationQuery qb vector sinceTime =
     (let vectorStr = formatVector vector;
          timeFilter =
            (if sinceTime \<noteq> []
             then '',where:{operator:GreaterThanEqual,path:['' @ [CHR 0x22] @ ''timestamp''
                  @ [CHR 0x22] @ ''],valueDate:'' @ [CHR 0x22] @ sinceTime @ [CHR 0x22] @ ''}''
             else [])
      in ''{ Get { '' @ className qb @ ''(nearVector:{vector:['' @ vectorStr @ '']}''
         @ timeFilter @ '',limit:'' @ formatInt (limit qb)
         @ ''){_additional{id,score}message,speaker,timestamp}}}'')"

definition BatchDeleteQuery :: "QueryBuilder \<Rightarrow> WhereFilter \<Rightarrow> string" where
  "BatchDeleteQuery qb whr =
     (let whereClause = BuildWhereClause qb whr
      in ''mutation{BatchDelete{objects(class:'' @ [CHR 0x22] @ className qb @ [CHR 0x22]
         @ '',where:'' @ whereClause @ ''){id}}}'')"

subsection \<open>weaviate\_client.go: the backing-store adapter\<close>

text \<open>
  What lies outside the module is an argument of every adapter method, the environment:
  \<^item> \<open>graphqlResponse q\<close> is the outcome of posting the query \<open>q\<close> and decoding the body
    into the \<^verbatim>\<open>{data, errors}\<close> envelope; the left side is the error \<^verbatim>\<open>executeGraphQL\<close>
    returns when marshalling, the HTTP round trip, reading or decoding fails;
  \<^item> \<open>objectsResponse obj\<close> is the same for the REST insert of \<^verbatim>\<open>createObject\<close>, the right
    side being the decoded JSON object;
  \<^item> \<open>formatRFC3339\<close> and \<open>parseRFC3339\<close> are \<^verbatim>\<open>Time.Format\<close> and \<^verbatim>\<open>time.Parse\<close> with
    the layout \<^verbatim>\<open>time.RFC3339\<close>.
\<close>

record GraphQLResponse =
  Data :: "(string \<times> json) list"
  Errors :: "string list"

record env =
  graphqlResponse :: "string \<Rightarrow> error + GraphQLResponse"
  objectsResponse :: "json \<Rightarrow> error + (string \<times> json) list"
  formatRFC3339 :: "Time \<Rightarrow> string"
  parseRFC3339 :: "string \<Rightarrow> Time option"

text \<open>
  The \<^verbatim>\<open>http.Client\<close> the adapter owns is kept as what has been done with it: the requests
  handed to it (a multiset, since the two searches of a hybrid call run concurrently) and
  the number of times its idle connections were closed.
\<close>

datatype request = PostGraphQL string | PostObject json

record httpClient =
  requests :: "request multiset"
  idleClosed :: nat

record WeaviateClient =
  host :: string
  apiKey :: string
  http :: httpClient
  wc_config :: IndexConfig

definition NewWeaviateClient :: "string \<Rightarrow> string \<Rightarrow> IndexConfig option \<Rightarrow> error + WeaviateClient" where
  "NewWeaviateClient h key cfg =
     (let cfg = (case cfg of None \<Rightarrow> DefaultIndexConfig | Some c \<Rightarrow> c)
      in Inr \<lparr> host = h, apiKey = key,
               http = \<lparr> requests = {#}, idleClosed = 0 \<rparr>,
               wc_config = cfg \<rparr>)"

definition executeGraphQL ::
  "WeaviateClient \<Rightarrow> env \<Rightarrow> string \<Rightarrow> WeaviateClient \<times> (error + (string \<times> json) list)" where
  "executeGraphQL wc e query =
     (let wc = wc\<lparr>http := (http wc)\<lparr>requests := add_mset (PostGraphQL query) (requests (http wc))\<rparr>\<rparr>
      in case graphqlResponse e query of
           Inl err \<Rightarrow> (wc, Inl err)
         | Inr gqlResp \<Rightarrow>
             if length (Errors gqlResp) > 0
             then (wc, Inl (Errorf (''GraphQL error: '' @ hd (Errors gqlResp))))
             else (wc, Inr (Data gqlResp)))"

fun navigate :: "json \<Rightarrow> string list \<Rightarrow> error + json" where
  \<comment> \<open>The loop over \<^verbatim>\<open>path\<close> at the head of both parse functions.\<close>
  "navigate current [] = Inr current"
| "navigate current (key # rest) =
     (case current of
        JObj m \<Rightarrow>
          (case map_of m key of
             Some val \<Rightarrow> navigate val rest
           | None \<Rightarrow> Inl (Errorf (''key not found: '' @ key)))
      | _ \<Rightarrow> Inl (Errorf (''unexpected type at path '' @ key)))"

definition extractAdditional :: "(string \<times> json) list \<Rightarrow> SearchResult \<Rightarrow> SearchResult" where
  \<comment> \<open>The block ``Extract \_additional fields''.\<close>
  "extractAdditional objMap result =
     (case map_of objMap ''_additional'' of
        Some (JObj additional) \<Rightarrow>
          (let result = (case map_of additional ''id'' of
                           Some (JStr ident) \<Rightarrow> result\<lparr>ID := ident\<rparr>
                         | _ \<Rightarrow> result);
               result = (case map_of additional ''score'' of
                           Some (JNum score) \<Rightarrow> result\<lparr>Score := score\<rparr>
                         | _ \<Rightarrow> result)
           in result)
      | _ \<Rightarrow> result)"

definition extractContent :: "(string \<times> json) list \<Rightarrow> SearchResult \<Rightarrow> SearchResult" where
  \<comment> \<open>The block ``Extract content fields based on class''.\<close>
  "extractContent objMap result =
     (case map_of objMap ''message'' of
        Some (JStr message) \<Rightarrow> result\<lparr>Text := message, DocID := ID result\<rparr>
      | _ \<Rightarrow>
        (case map_of objMap ''content'' of
           Some (JStr content) \<Rightarrow> result\<lparr>Text := content, DocID := ID result\<rparr>
         | _ \<Rightarrow>
           (case map_of objMap ''title'' of
              Some (JStr title) \<Rightarrow> result\<lparr>Text := title, DocID := ID result\<rparr>
            | _ \<Rightarrow> result)))"

definition extractMetadata :: "(string \<times> json) list \<Rightarrow> SearchResult \<Rightarrow> SearchResult" where
  \<comment> \<open>The block ``Store other fields as metadata''.\<close>
  "extractMetadata objMap result =
     result\<lparr>Metadata :=
              (\<lambda>k. if k \<noteq> ''_additional'' \<and> k \<noteq> ''message'' \<and> k \<noteq> ''content''
                       \<and> k \<noteq> ''title''
                    then (case map_of objMap k of Some v \<Rightarrow> Some v | None \<Rightarrow> Metadata result k)
                    else Metadata result k)\<rparr>"

definition extractSearchResult :: "(string \<times> json) list \<Rightarrow> SearchResult" where
  "extractSearchResult objMap =
     (let result = zeroSearchResult\<lparr>Metadata := Map.empty\<rparr>;
          result = extractAdditional objMap result;
          result = extractContent objMap result;
          result = extractMetadata objMap result
      in result)"

fun staticObjects :: "json list \<Rightarrow> SearchResults" where
  \<comment> \<open>The loop over the array in \<^verbatim>\<open>parseSearchResults\<close>.\<close>
  "staticObjects [] = []"
| "staticObjects (obj # rest) =
     (case obj of
        JObj objMap \<Rightarrow>
          (extractSearchResult objMap)\<lparr>Source := SourceStatic\<rparr> # staticObjects rest
      | _ \<Rightarrow> staticObjects rest)"

definition parseSearchResults :: "(string \<times> json) list \<Rightarrow> string list \<Rightarrow> error + SearchResults" where
  "parseSearchResults data path =
     (case navigate (JObj data) path of
        Inl err \<Rightarrow> Inl err
      | Inr current \<Rightarrow>
          (case current of
             JArr objects \<Rightarrow> Inr (staticObjects objects)
           | _ \<Rightarrow> Inr []))"

fun conversationObjects :: "env \<Rightarrow> json list \<Rightarrow> SearchResults" where
  \<comment> \<open>The loop over the array in \<^verbatim>\<open>parseConversationResults\<close>.\<close>
  "conversationObjects e [] = []"
| "conversationObjects e (obj # rest) =
     (case obj of
        JObj objMap \<Rightarrow>
          (let result = (extractSearchResult objMap)\<lparr>Source := SourceConversation\<rparr>;
               result =
                 (case map_of objMap ''timestamp'' of
                    Some (JStr tsStr) \<Rightarrow>
                      (case parseRFC3339 e tsStr of
                         Some ts \<Rightarrow> result\<lparr>Timestamp := Some ts\<rparr>
                       | None \<Rightarrow> result)
                  | _ \<Rightarrow> result)
           in result # conversationObjects e rest)
      | _ \<Rightarrow> conversationObjects e rest)"

definition parseConversationResults ::
  "env \<Rightarrow> (string \<times> json) list \<Rightarrow> string list \<Rightarrow> error + SearchResults" where
  "parseConversationResults e data path =
     (case navigate (JObj data) path of
        Inl err \<Rightarrow> Inl err
      | Inr current \<Rightarrow>
          (case current of
             JArr objects \<Rightarrow> Inr (conversationObjects e objects)
           | _ \<Rightarrow> Inr []))"

definition client_SearchStatic ::
  "WeaviateClient \<Rightarrow> env \<Rightarrow> Query \<Rightarrow> WeaviateClient \<times> (error + SearchResults)" where
  "client_SearchStatic wc e query =
     (let qb = NewQueryBuilder (StaticIndexName (wc_config wc)) (qLimit query);
          graphQLQuery = HybridQuery qb (qText query) (qVector query) (1 / 2)
      in case executeGraphQL wc e graphQLQuery of
           (wc, Inl err) \<Rightarrow> (wc, Inl (ErrorfW ''static search failed: '' err))
         | (wc, Inr response) \<Rightarrow>
             (wc, parseSearchResults response (GetResultPath (StaticIndexName (wc_config wc)))))"

definition client_SearchConversation ::
  "WeaviateClient \<Rightarrow> env \<Rightarrow> Query \<Rightarrow> WeaviateClient \<times> (error + SearchResults)" where
  "client_SearchConversation wc e query =
     (let qb = NewQueryBuilder (ConversationIndexName (wc_config wc)) (qLimit query);
          sinceTime = (case qTimeRange query of
                         Some tr \<Rightarrow> formatRFC3339 e (Since tr)
                       | None \<Rightarrow> []);
          graphQLQuery = ConversationQuery qb (qVector query) sinceTime
      in case executeGraphQL wc e graphQLQuery of
           (wc, Inl err) \<Rightarrow> (wc, Inl (ErrorfW ''conversation search failed: '' err))
         | (wc, Inr response) \<Rightarrow>
             (wc, parseConversationResults e response
                    (GetResultPath (ConversationIndexName (wc_config wc)))))"

definition createObject ::
  "WeaviateClient \<Rightarrow> env \<Rightarrow> json \<Rightarrow> WeaviateClient \<times> (error + string)" where
  "createObject wc e object =
     (let wc = wc\<lparr>http := (http wc)\<lparr>requests := add_mset (PostObject object) (requests (http wc))\<rparr>\<rparr>
      in case objectsResponse e object of
           Inl err \<Rightarrow> (wc, Inl err)
         | Inr result \<Rightarrow>
             (case map_of result ''id'' of
                Some (JStr ident) \<Rightarrow> (wc, Inr ident)
              | _ \<Rightarrow> (wc, Inl (Errorf ''no ID in response''))))"

text \<open>
  Assigning the entries of one map to another puts them in front of the association
  list, where \<open>map_of\<close> finds them first.
\<close>

definition withMetadata :: "(string \<times> json) list \<Rightarrow> (string \<times> json) list \<Rightarrow> (string \<times> json) list" where
  \<comment> \<open>The loop \<^verbatim>\<open>for k, v := range metadata { properties[k] = v }\<close>.\<close>
  "withMetadata metadata properties = metadata @ properties"

definition client_AddConversationTurn ::
  "WeaviateClient \<Rightarrow> env \<Rightarrow> Time \<Rightarrow> string \<Rightarrow> string \<Rightarrow> (string \<times> json) list
     \<Rightarrow> WeaviateClient \<times> (error + string)" where
  "client_AddConversationTurn wc e now message speaker metadata =
     (let properties =
            [(''message'', JStr message), (''speaker'', JStr speaker),
             (''timestamp'', JStr (formatRFC3339 e now))];
          object = JObj [(''class'', JStr (ConversationIndexName (wc_config wc))),
                         (''properties'', JObj (withMetadata metadata properties))]
      in case createObject wc e object of
           (wc, Inl err) \<Rightarrow> (wc, Inl (ErrorfW ''failed to add conversation turn: '' err))
         | (wc, Inr ident) \<Rightarrow> (wc, Inr ident))"

definition client_AddKnowledgeDocument ::
  "WeaviateClient \<Rightarrow> env \<Rightarrow> Time \<Rightarrow> string \<Rightarrow> string \<Rightarrow> (string \<times> json) list
     \<Rightarrow> WeaviateClient \<times> (error + string)" where
  "client_AddKnowledgeDocument wc e now title content metadata =
     (let properties =
            [(''title'', JStr title), (''content'', JStr content),
             (''updatedAt'', JStr (formatRFC3339 e now))];
          object = JObj [(''class'', JStr (StaticIndexName (wc_config wc))),
                         (''properties'', JObj (withMetadata metadata properties))]
      in case createObject wc e object of
           (wc, Inl err) \<Rightarrow> (wc, Inl (ErrorfW ''failed to add document: '' err))
         | (wc, Inr ident) \<Rightarrow> (wc, Inr ident))"

definition executeBatchDelete ::
  "WeaviateClient \<Rightarrow> env \<Rightarrow> string \<Rightarrow> WeaviateClient \<times> (error + int)" where
  "executeBatchDelete wc e query =
     (case executeGraphQL wc e query of
        (wc, Inl err) \<Rightarrow> (wc, Inl err)
      | (wc, Inr _) \<Rightarrow> (wc, Inr 0))"

definition negDuration :: "Duration \<Rightarrow> Duration" where
  \<comment> \<open>Unary minus on a 64-bit Duration: the least value is its own negation.\<close>
  "negDuration d = (if d = minDuration then minDuration else - d)"

definition client_PruneOldConversations ::
  "WeaviateClient \<Rightarrow> env \<Rightarrow> Time \<Rightarrow> Duration \<Rightarrow> WeaviateClient \<times> (error + int)" where
  "client_PruneOldConversations wc e now maxAge =
     (let cutoffTime = now + negDuration maxAge;
          qb = NewQueryBuilder (ConversationIndexName (wc_config wc)) 0;
          flt = WhereFilter ''LessThan'' [''timestamp'']
                  (Some (VString (formatRFC3339 e cutoffTime))) [];
          deleteQuery = BatchDeleteQuery qb flt
      in case executeBatchDelete wc e deleteQuery of
           (wc, Inl err) \<Rightarrow> (wc, Inl (ErrorfW ''pruning failed: '' err))
         | (wc, Inr deleted) \<Rightarrow> (wc, Inr deleted))"

definition client_HealthCheck :: "WeaviateClient \<Rightarrow> env \<Rightarrow> WeaviateClient \<times> error option" where
  "client_HealthCheck wc e =
     (case executeGraphQL wc e ''{Meta{hostname}}'' of
        (wc, Inl err) \<Rightarrow> (wc, Some err)
      | (wc, Inr _) \<Rightarrow> (wc, None))"

definition client_Close :: "WeaviateClient \<Rightarrow> WeaviateClient \<times> error option" where
  "client_Close wc = (wc\<lparr>http := (http wc)\<lparr>idleClosed := Suc (idleClosed (http wc))\<rparr>\<rparr>, None)"

subsection \<open>retriever.go: the retrieval coordinator\<close>

text \<open>
  The reader/writer lock serialises configuration updates and \<^verbatim>\<open>Close\<close> against the
  other methods; each method is therefore one atomic step on the record below. The
  wall-clock reading \<^verbatim>\<open>time.Now()\<close> of a method is its argument \<open>now\<close>. The two
  sub-searches of \<^verbatim>\<open>SearchHybrid\<close> run concurrently and are joined before anything else
  happens; they share the transport only, whose log is a multiset, and neither reads
  what the other writes, so the model runs the static search first. Contexts and their
  cancellation are outside the model.

  The field \<^verbatim>\<open>config\<close> is the pointer the retriever was given (or, for a nil argument of
  the constructor, the pointer to the default struct the constructor allocates); the
  merger holds the same pointer. No method writes to the struct behind it, so the store
  is an argument of the methods that read it and only the constructor returns one. The
  retriever's own decay calculator is built from the field values at the time the pointer
  is installed. The \<^verbatim>\<open>*IndexConfig\<close> is likewise shared with the caller; the model keeps
  that struct by value, so it describes the runs in which the caller does not write to it
  after construction.
\<close>

record AgentRAGRetriever =
  client :: WeaviateClient
  merger :: ResultMergerPtr
  config :: addr
  indexConfig :: IndexConfig
  temporalDecay :: TemporalDecay
  closed_r :: bool

definition NewAgentRAGRetriever ::
  "store \<Rightarrow> string \<Rightarrow> string \<Rightarrow> addr option \<Rightarrow> IndexConfig option
     \<Rightarrow> store \<times> (error + AgentRAGRetriever)" where
  \<comment> \<open>\<open>None\<close> is a nil argument.\<close>
  "NewAgentRAGRetriever \<sigma> weaviateHost key mergeConfig idxConfig =
     (let (\<sigma>, mergeConfig) =
            (case mergeConfig of
               None \<Rightarrow> alloc \<sigma> (structOf DefaultMergeConfig)
             | Some p \<Rightarrow> (\<sigma>, p));
          idxConfig = (case idxConfig of None \<Rightarrow> DefaultIndexConfig | Some c \<Rightarrow> c)
      in case Validate (deref \<sigma> mergeConfig) of
           Some err \<Rightarrow> (\<sigma>, Inl (ErrorfW ''invalid config: '' err))
         | None \<Rightarrow>
             (case NewWeaviateClient weaviateHost key (Some idxConfig) of
                Inl err \<Rightarrow> (\<sigma>, Inl (ErrorfW ''failed to create client: '' err))
              | Inr cl \<Rightarrow>
                  (case NewResultMerger \<sigma> mergeConfig of
                     Inl err \<Rightarrow> (\<sigma>, Inl (ErrorfW ''failed to create merger: '' err))
                   | Inr mg \<Rightarrow>
                       (let cfg = ideal (deref \<sigma> mergeConfig)
                        in (\<sigma>,
                            Inr \<lparr> client = cl, merger = mg, config = mergeConfig,
                                  indexConfig = idxConfig,
                                  temporalDecay =
                                    NewTemporalDecay (HalfLifeMinutes cfg)
                                      (MinTemporalWeight cfg)
                                      (TemporalDecayEnabled cfg),
                                  closed_r = False \<rparr>)))))"

definition SearchStatic ::
  "AgentRAGRetriever \<Rightarrow> env \<Rightarrow> Query \<Rightarrow> AgentRAGRetriever \<times> (error + SearchResults)" where
  "SearchStatic r e query =
     (if closed_r r then (r, Inl ErrClosedRetriever)
      else case client_SearchStatic (client r) e query of
             (cl, Inl err) \<Rightarrow> (r\<lparr>client := cl\<rparr>, Inl err)
           | (cl, Inr results) \<Rightarrow> (r\<lparr>client := cl\<rparr>, Inr results))"

definition SearchConversation ::
  "AgentRAGRetriever \<Rightarrow> env \<Rightarrow> Time \<Rightarrow> Query \<Rightarrow> AgentRAGRetriever \<times> (error + SearchResults)" where
  "SearchConversation r e now query =
     (if closed_r r then (r, Inl ErrClosedRetriever)
      else case client_SearchConversation (client r) e query of
             (cl, Inl err) \<Rightarrow> (r\<lparr>client := cl\<rparr>, Inl err)
           | (cl, Inr results) \<Rightarrow>
               (r\<lparr>client := cl\<rparr>, Inr (ApplyToResults (temporalDecay r) results now)))"

definition applyLimit :: "Query \<Rightarrow> SearchResults \<Rightarrow> SearchResults" where
  \<comment> \<open>The truncation at the end of \<^verbatim>\<open>SearchHybrid\<close>.\<close>
  "applyLimit query mergedResults =
     (if qLimit query > 0 \<and> int (length mergedResults) > qLimit query
      then take (nat (qLimit query)) mergedResults
      else mergedResults)"

definition hybridOutcome ::
  "ResultMerger \<Rightarrow> Query \<Rightarrow> Time \<Rightarrow> choices \<Rightarrow> error + SearchResults \<Rightarrow> error + SearchResults
     \<Rightarrow> error + SearchResults" where
  \<comment> \<open>The body of \<^verbatim>\<open>SearchHybrid\<close> from the join of the two searches on.\<close>
  "hybridOutcome mg query now ch staticOutcome convOutcome =
     (case (staticOutcome, convOutcome) of
        (Inl staticErr, Inl convErr) \<Rightarrow>
          Inl (Errorf (''both searches failed: static='' @ Error staticErr
                       @ '', conversation='' @ Error convErr))
      | _ \<Rightarrow>
          (let staticResults = (case staticOutcome of Inl _ \<Rightarrow> [] | Inr rs \<Rightarrow> rs);
               convResults = (case convOutcome of Inl _ \<Rightarrow> [] | Inr rs \<Rightarrow> rs);
               mergedResults = Merge mg staticResults convResults now ch
           in Inr (applyLimit query mergedResults)))"

definition SearchHybrid ::
  "AgentRAGRetriever \<Rightarrow> store \<Rightarrow> env \<Rightarrow> Time \<Rightarrow> choices \<Rightarrow> Query
     \<Rightarrow> AgentRAGRetriever \<times> (error + SearchResults)" where
  "SearchHybrid r \<sigma> e now ch query =
     (if closed_r r then (r, Inl ErrClosedRetriever)
      else
        let (cl, staticOutcome) = client_SearchStatic (client r) e query;
            (cl, convOutcome) = client_SearchConversation cl e query
        in (r\<lparr>client := cl\<rparr>,
            hybridOutcome (readMerger \<sigma> (merger r)) query now ch staticOutcome convOutcome))"

definition AddConversationTurn ::
  "AgentRAGRetriever \<Rightarrow> env \<Rightarrow> Time \<Rightarrow> string \<Rightarrow> string \<Rightarrow> (string \<times> json) list
     \<Rightarrow> AgentRAGRetriever \<times> (error + string)" where
  "AddConversationTurn r e now message speaker metadata =
     (if closed_r r then (r, Inl ErrClosedRetriever)
      else case client_AddConversationTurn (client r) e now message speaker metadata of
             (cl, res) \<Rightarrow> (r\<lparr>client := cl\<rparr>, res))"

definition AddKnowledgeDocument ::
  "AgentRAGRetriever \<Rightarrow> env \<Rightarrow> Time \<Rightarrow> string \<Rightarrow> string \<Rightarrow> (string \<times> json) list
     \<Rightarrow> AgentRAGRetriever \<times> (error + string)" where
  "AddKnowledgeDocument r e now title content metadata =
     (if closed_r r then (r, Inl ErrClosedRetriever)
      else case client_AddKnowledgeDocument (client r) e now title content metadata of
             (cl, res) \<Rightarrow> (r\<lparr>client := cl\<rparr>, res))"

definition PruneOldConversations ::
  "AgentRAGRetriever \<Rightarrow> env \<Rightarrow> Time \<Rightarrow> Duration \<Rightarrow> AgentRAGRetriever \<times> (error + int)" where
  "PruneOldConversations r e now maxAge =
     (if closed_r r then (r, Inl ErrClosedRetriever)
      else case client_PruneOldConversations (client r) e now maxAge of
             (cl, res) \<Rightarrow> (r\<lparr>client := cl\<rparr>, res))"

text \<open>
  \<^verbatim>\<open>UpdateConfig\<close> with a pointer that is not nil (a nil pointer makes \<^verbatim>\<open>Validate\<close> panic
  on its first field access). What is installed is the pointer: \<^verbatim>\<open>GetConfig\<close> returns it,
  and the configuration in effect at any later moment is the struct it leads to then,
  \<open>deref \<sigma> (GetConfig r)\<close>.
\<close>

definition UpdateConfig ::
  "AgentRAGRetriever \<Rightarrow> store \<Rightarrow> addr \<Rightarrow> AgentRAGRetriever \<times> error option" where
  "UpdateConfig r \<sigma> p =
     (case Validate (deref \<sigma> p) of
        Some err \<Rightarrow> (r, Some err)
      | None \<Rightarrow>
          (let cfg = ideal (deref \<sigma> p)
           in (r\<lparr>config := p,
                 merger := snd (SetConfig (merger r) \<sigma> p),
                 temporalDecay :=
                   NewTemporalDecay (HalfLifeMinutes cfg) (MinTemporalWeight cfg)
                     (TemporalDecayEnabled cfg)\<rparr>,
               None)))"


definition GetIndexConfig :: "AgentRAGRetriever \<Rightarrow> IndexConfig" where
  "GetIndexConfig r = indexConfig r"

definition HealthCheck :: "AgentRAGRetriever \<Rightarrow> env \<Rightarrow> AgentRAGRetriever \<times> error option" where
  "HealthCheck r e =
     (if closed_r r then (r, Some ErrClosedRetriever)
      else case client_HealthCheck (client r) e of
             (cl, res) \<Rightarrow> (r\<lparr>client := cl\<rparr>, res))"

definition Close :: "AgentRAGRetriever \<Rightarrow> AgentRAGRetriever \<times> error option" where
  "Close r =
     (if closed_r r then (r, None)
      else case client_Close (client r) of
             (cl, res) \<Rightarrow> (r\<lparr>closed_r := True, client := cl\<rparr>, res))"

definition IsClosed :: "AgentRAGRetriever \<Rightarrow> bool" where
  "IsClosed r = closed_r r"

subsection \<open>A caller: sequences of calls on one retriever\<close>

text \<open>
  A program using the retriever is a list of calls, each with the environment, clock
  reading and runtime choices it meets, and with the store as the caller's writes have
  left it by then; \<open>run\<close> performs them in order and collects what each returns.
\<close>

datatype call =
    CallSearchStatic env Query
  | CallSearchConversation env Time Query
  | CallSearchHybrid store env Time choices Query
  | CallAddConversationTurn env Time string string "(string \<times> json) list"
  | CallAddKnowledgeDocument env Time string string "(string \<times> json) list"
  | CallPruneOldConversations env Time Duration
  | CallHealthCheck env
  | CallUpdateConfig store addr
  | CallClose

datatype reply =
    Results "error + SearchResults"
  | Ident "error + string"
  | Count "error + int"
  | Err "error option"

fun perform :: "AgentRAGRetriever \<Rightarrow> call \<Rightarrow> AgentRAGRetriever \<times> reply" where
  "perform r (CallSearchStatic e q) = (case SearchStatic r e q of (r, x) \<Rightarrow> (r, Results x))"
| "perform r (CallSearchConversation e now q) =
     (case SearchConversation r e now q of (r, x) \<Rightarrow> (r, Results x))"
| "perform r (CallSearchHybrid \<sigma> e now ch q) =
     (case SearchHybrid r \<sigma> e now ch q of (r, x) \<Rightarrow> (r, Results x))"
| "perform r (CallAddConversationTurn e now m s md) =
     (case AddConversationTurn r e now m s md of (r, x) \<Rightarrow> (r, Ident x))"
| "perform r (CallAddKnowledgeDocument e now t c md) =
     (case AddKnowledgeDocument r e now t c md of (r, x) \<Rightarrow> (r, Ident x))"
| "perform r (CallPruneOldConversations e now maxAge) =
     (case PruneOldConversations r e now maxAge of (r, x) \<Rightarrow> (r, Count x))"
| "perform r (CallHealthCheck e) = (case HealthCheck r e of (r, x) \<Rightarrow> (r, Err x))"
| "perform r (CallUpdateConfig \<sigma> p) = (case UpdateConfig r \<sigma> p of (r, x) \<Rightarrow> (r, Err x))"
| "perform r CallClose = (case Close r of (r, x) \<Rightarrow> (r, Err x))"

fun run :: "AgentRAGRetriever \<Rightarrow> call list \<Rightarrow> AgentRAGRetriever \<times> reply list" where
  "run r [] = (r, [])"
| "run r (c # cs) =
     (case perform r c of
        (r', x) \<Rightarrow> (case run r' cs of (r'', xs) \<Rightarrow> (r'', x # xs)))"

subsection \<open>Notions used to state the properties\<close>

definition keyedByID :: "(string \<rightharpoonup> SearchResult) \<Rightarrow> bool" where
  \<comment> \<open>Every record of \<^verbatim>\<open>resultMap\<close> is stored under its own identifier.\<close>
  "keyedByID resm \<longleftrightarrow> (\<forall>k r. resm k = Some r \<longrightarrow> ID r = k)"

definition retained :: "SearchResults \<Rightarrow> string \<Rightarrow> SearchResult" where
  \<comment> \<open>The static-side record of an identifier: the last record of the static list that
      carries it (the only one when identifiers do not repeat).\<close>
  "retained staticResults i = last (filter (\<lambda>s. ID s = i) staticResults)"

definition sortedByScoreDesc :: "SearchResults \<Rightarrow> bool" where
  "sortedByScoreDesc rs \<longleftrightarrow> sorted_wrt (\<lambda>a b. Score b \<le> Score a) rs"



subsection \<open>Fixtures of the scenarios\<close>

definition defaultMerger :: ResultMerger where
  \<comment> \<open>What \<open>NewResultMerger DefaultMergeConfig\<close> returns.\<close>
  "defaultMerger =
     \<lparr> rm_config = DefaultMergeConfig,
       rm_temporalDecay = \<lparr> halfLifeMinutes = 30, minWeight = 1 / 100, enabled = True \<rparr> \<rparr>"

definition rrfConfig :: MergeConfig where
  \<comment> \<open>The configuration of \<^verbatim>\<open>TestResultMerger_RRF\<close>.\<close>
  "rrfConfig =
     \<lparr> StaticWeight = 1 / 2, ConversationWeight = 1 / 2, TemporalDecayEnabled = False,
       HalfLifeMinutes = 30, MinTemporalWeight = 1 / 100, Algorithm = ''rrf'', RRFK = 60 \<rparr>"

definition rrfMerger :: ResultMerger where
  \<comment> \<open>What \<open>NewResultMerger rrfConfig\<close> returns.\<close>
  "rrfMerger =
     \<lparr> rm_config = rrfConfig,
       rm_temporalDecay = \<lparr> halfLifeMinutes = 30, minWeight = 1 / 100, enabled = False \<rparr> \<rparr>"

definition resultOf :: "string \<Rightarrow> real \<Rightarrow> SourceType \<Rightarrow> Time option \<Rightarrow> SearchResult" where
  \<comment> \<open>A result as the tests write them: identifier, score, source and timestamp.\<close>
  "resultOf i s src ts =
     \<lparr> ID = i, DocID = [], Score = s, Text = [], Metadata = Map.empty, Source = src,
       Timestamp = ts \<rparr>"

definition testUpdateConfig :: MergeConfigStruct where
  \<comment> \<open>The configuration \<^verbatim>\<open>TestAgentRAGRetriever_ConfigUpdate\<close> installs; the fields the
      test leaves out have Go's zero values.\<close>
  "testUpdateConfig =
     \<lparr> StaticWeight = Fin (7 / 10), ConversationWeight = Fin (3 / 10),
       TemporalDecayEnabled = True, HalfLifeMinutes = Fin 60, MinTemporalWeight = Fin 0,
       Algorithm = ''rrf'', RRFK = 0 \<rparr>"

definition zeroMergeConfig :: MergeConfigStruct where
  \<comment> \<open>The zero value of the struct.\<close>
  "zeroMergeConfig =
     \<lparr> StaticWeight = Fin 0, ConversationWeight = Fin 0, TemporalDecayEnabled = False,
       HalfLifeMinutes = Fin 0, MinTemporalWeight = Fin 0, Algorithm = [], RRFK = 0 \<rparr>"

definition emptyStore :: store where
  \<comment> \<open>The memory of a test when it starts: no struct allocated.\<close>
  "emptyStore = \<lparr> cells = (\<lambda>p. zeroMergeConfig), allocated = 0 \<rparr>"

definition openStore :: store where
  \<comment> \<open>The memory the constructor leaves when called on \<open>emptyStore\<close> with a nil
      configuration: the default struct is at address 0.\<close>
  "openStore =
     \<lparr> cells = (\<lambda>p. zeroMergeConfig)(0 := structOf DefaultMergeConfig), allocated = 1 \<rparr>"

definition testStore :: store where
  \<comment> \<open>The memory of \<^verbatim>\<open>TestAgentRAGRetriever_ConfigUpdate\<close> when it calls \<^verbatim>\<open>UpdateConfig\<close>:
      after the constructor, the test has allocated \<open>testUpdateConfig\<close>, at address 1.\<close>
  "testStore =
     \<lparr> cells = (\<lambda>p. zeroMergeConfig)(0 := structOf DefaultMergeConfig, 1 := testUpdateConfig),
       allocated = 2 \<rparr>"

definition openRetriever :: AgentRAGRetriever where
  \<comment> \<open>What \<open>NewAgentRAGRetriever\<close> returns on \<open>emptyStore\<close> for the tests' host with every
      default.\<close>
  "openRetriever =
     \<lparr> client = \<lparr> host = ''http://localhost:8080'', apiKey = [],
                  http = \<lparr> requests = {#}, idleClosed = 0 \<rparr>,
                  wc_config = DefaultIndexConfig \<rparr>,
       merger = \<lparr> rm_config = 0,
                  rm_temporalDecay =
                    \<lparr> halfLifeMinutes = 30, minWeight = 1 / 100, enabled = True \<rparr> \<rparr>,
       config = 0,
       indexConfig = DefaultIndexConfig,
       temporalDecay = \<lparr> halfLifeMinutes = 30, minWeight = 1 / 100, enabled = True \<rparr>,
       closed_r = False \<rparr>"



definition testQuery :: Query where
  \<comment> \<open>The query of \<^verbatim>\<open>TestAgentRAGRetriever_OperationAfterClose\<close>.\<close>
  "testQuery =
     \<lparr> qText = ''test query'', qVector = [], qFilters = [], qLimit = 10,
       qTimeRange = None, qIncludeMeta = False \<rparr>"

definition s3Stamp :: string where
  "s3Stamp = ''2026-02-20T10:00:00Z''"

definition s3Env :: "Time \<Rightarrow> env" where
  \<comment> \<open>Scenario S3 at the clock reading \<open>now\<close>: the conversation query for \<open>testQuery\<close> is
      answered with the record \<open>Y\<close> of score 0.7 stamped \<open>now\<close>; every other request meets
      a transport error.\<close>
  "s3Env now =
     \<lparr> graphqlResponse =
         (\<lambda>q. if q = ''{ Get { Conversation(nearVector:{vector:[]},limit:10)''
                       @ ''{_additional{id,score}message,speaker,timestamp}}}''
               then Inr \<lparr> Data =
                            [(''Get'', JObj [(''Conversation'', JArr
                               [JObj [(''_additional'',
                                        JObj [(''id'', JStr ''Y''), (''score'', JNum (7 / 10))]),
                                      (''message'', JStr ''hello''),
                                      (''speaker'', JStr ''user''),
                                      (''timestamp'', JStr s3Stamp)]])])],
                          Errors = [] \<rparr>
               else Inl (Transport ''connection refused'')),
       objectsResponse = (\<lambda>obj. Inl (Transport ''connection refused'')),
       formatRFC3339 = (\<lambda>t. s3Stamp),
       parseRFC3339 = (\<lambda>s. if s = s3Stamp then Some now else None) \<rparr>"

definition deletedTwo :: env where
  \<comment> \<open>A backing store that answers every mutation with two deleted objects.\<close>
  "deletedTwo =
     \<lparr> graphqlResponse =
         (\<lambda>q. Inr \<lparr> Data = [(''BatchDelete'',
                               JObj [(''objects'', JArr [JObj [(''id'', JStr ''a'')],
                                                         JObj [(''id'', JStr ''b'')]])])],
                     Errors = [] \<rparr>),
       objectsResponse = (\<lambda>obj. Inl (Transport ''unused'')),
       formatRFC3339 = (\<lambda>t. ''2026-01-01T00:00:00Z''),
       parseRFC3339 = (\<lambda>s. None) \<rparr>"

text \<open>
  The \<^verbatim>\<open>float32\<close> values nearest to 0.1, 0.2 and 0.3, which the literal
  \<^verbatim>\<open>[]float32{0.1, 0.2, 0.3}\<close> denotes.
\<close>

definition float32_0_1 :: real where "float32_0_1 = 13421773 / 134217728"
definition float32_0_2 :: real where "float32_0_2 = 13421773 / 67108864"
definition float32_0_3 :: real where "float32_0_3 = 5033165 / 16777216"

definition snapshotS6 :: string where
  \<comment> \<open>The rendering scenario S6 expects, with its three parts set apart.\<close>
  "snapshotS6 =
     ''{ Get { KnowledgeBase('' @
     ''hybrid:{query:'' @ [CHR 0x22] @ ''machine learning'' @ [CHR 0x22]
       @ '',vector:[0.100000,0.200000,0.300000],alpha:0.50}'' @
     '','' @ ''limit:10'' @ ''){_additional{id,score,vector}'' @ ''title,content'' @ ''}}}''"

definition s3Record :: "Time \<Rightarrow> real \<Rightarrow> SearchResult" where
  \<comment> \<open>The record \<open>Y\<close> of scenario S3 as the adapter parses it, with a given score.\<close>
  "s3Record now sc =
     \<lparr> ID = ''Y'', DocID = ''Y'', Score = sc, Text = ''hello'',
       Metadata = [''speaker'' \<mapsto> JStr ''user'', ''timestamp'' \<mapsto> JStr s3Stamp],
       Source = SourceConversation, Timestamp = Some now \<rparr>"

definition s3Choices :: choices where
  \<comment> \<open>The only iteration order of a score map whose one key is \<open>Y\<close>.\<close>
  "s3Choices = \<lparr> keyOrder = [''Y''], tieOrder = [] \<rparr>"

section \<open>Verification\<close>

subsection \<open>Temporal decay\<close>

lemma Minutes_eq: "Minutes d = real_of_int d / 60000000000"
proof -
  have "real_of_int (rem d Minute) = real_of_int d - real_of_int (quo d Minute) * 60000000000"
    by (simp add: rem_def Minute_def)
  then show ?thesis by (simp add: Minutes_def field_simps)
qed

lemma Sub_nonneg: "u \<le> t \<Longrightarrow> 0 \<le> Sub t u"
  by (simp add: Sub_def Let_def minDuration_def maxDuration_def)


lemma Apply_enabled:
  "enabled td \<Longrightarrow> Apply td score ts now =
     score * max (minWeight td) (exp (- ln 2 * Minutes (Sub now ts) / halfLifeMinutes td))"
  by (simp add: Apply_def Let_def Ln2_def max_def)

lemma Apply_disabled: "\<not> enabled td \<Longrightarrow> Apply td score ts now = score"
  by (simp add: Apply_def)

lemma decay_exp_le_1:
  assumes "0 < h" "0 \<le> t"
  shows "exp (- ln 2 * t / h) \<le> (1::real)"
proof -
  have "- ln 2 * t / h \<le> (0::real)"
    using assms by (simp add: divide_nonpos_pos mult_nonneg_nonneg)
  then show ?thesis by simp
qed


lemma exp_minus_ln2: "exp (- ln 2 :: real) = 1 / 2"
  by (simp add: exp_minus)

lemma exp_minus_2ln2: "exp (- ln 2 * 2 :: real) = 1 / 4"
proof -
  have "exp (- ln 2 + - ln 2 :: real) = exp (- ln 2) * exp (- ln 2)"
    by (rule exp_add)
  also have "\<dots> = 1 / 4" by (simp only: exp_minus_ln2)
  finally show ?thesis by (simp only: mult_2_right)
qed

lemma Apply_bounds:
  assumes en: "enabled td" and h: "0 < halfLifeMinutes td"
    and m1: "minWeight td \<le> 1"
    and s: "0 \<le> score" and ts: "timestamp \<le> currentTime"
  shows "minWeight td * score \<le> Apply td score timestamp currentTime"
    and "Apply td score timestamp currentTime \<le> score"
proof -
  let ?e = "exp (- ln 2 * Minutes (Sub currentTime timestamp) / halfLifeMinutes td)"
  have t0: "0 \<le> Minutes (Sub currentTime timestamp)"
    using Sub_nonneg [OF ts] by (simp add: Minutes_eq)
  have e1: "?e \<le> 1" by (rule decay_exp_le_1 [OF h t0])
  have mx1: "max (minWeight td) ?e \<le> 1" using e1 m1 by simp
  have mx0: "minWeight td \<le> max (minWeight td) ?e" by simp
  have A: "Apply td score timestamp currentTime = score * max (minWeight td) ?e"
    by (rule Apply_enabled [OF en])
  show "minWeight td * score \<le> Apply td score timestamp currentTime"
    unfolding A using mult_left_mono [OF mx0 s] by (simp add: mult.commute)
  show "Apply td score timestamp currentTime \<le> score"
    unfolding A using mult_left_mono [OF mx1 s] by simp
qed

lemma Apply_at_age_0:
  assumes en: "enabled td" and m1: "minWeight td \<le> 1"
    and a: "Minutes (Sub currentTime timestamp) = 0"
  shows "Apply td score timestamp currentTime = score * 1"
  using m1 by (simp add: Apply_enabled [OF en] a max_def)

lemma Apply_at_age_H:
  assumes en: "enabled td" and h: "0 < halfLifeMinutes td"
    and a: "Minutes (Sub currentTime timestamp) = halfLifeMinutes td"
  shows "Apply td score timestamp currentTime = score * max (minWeight td) (1 / 2)"
proof -
  have "- ln 2 * Minutes (Sub currentTime timestamp) / halfLifeMinutes td = - ln 2"
    using h by (simp add: a)
  then show ?thesis by (simp only: Apply_enabled [OF en] exp_minus_ln2)
qed

lemma Apply_at_age_2H:
  assumes en: "enabled td" and h: "0 < halfLifeMinutes td"
    and a: "Minutes (Sub currentTime timestamp) = 2 * halfLifeMinutes td"
  shows "Apply td score timestamp currentTime = score * max (minWeight td) (1 / 4)"
proof -
  have "- ln 2 * Minutes (Sub currentTime timestamp) / halfLifeMinutes td = - ln 2 * 2"
    using h by (simp add: a)
  then show ?thesis by (simp only: Apply_enabled [OF en] exp_minus_2ln2)
qed



text \<open>
  Claim C4, as the code has it. For every base score \<open>\<ge> 0\<close>, enabled decay with half-life
  \<open>H > 0\<close> and floor \<open>m \<in> [0,1]\<close>, and every record timestamp not after the reference time,
  \<open>m \<cdot> score \<le> Apply score timestamp reference \<le> score\<close>. The multiplier is 1 at age 0, and
  it is the larger of the floor and the exponential at the other two ages: \<open>max m (1/2)\<close> at
  age \<open>H\<close> and \<open>max m (1/4)\<close> at age \<open>2H\<close>, hence 1/2 and 1/4 exactly when the floor is not
  above them.
\<close>

theorem C4_Apply_bounds_and_halving:
  assumes "enabled td" and "0 < halfLifeMinutes td"
    and "0 \<le> minWeight td" and "minWeight td \<le> 1"
    and "0 \<le> score" and "timestamp \<le> currentTime"
  shows "minWeight td * score \<le> Apply td score timestamp currentTime
       \<and> Apply td score timestamp currentTime \<le> score
       \<and> (Minutes (Sub currentTime timestamp) = 0 \<longrightarrow>
            Apply td score timestamp currentTime = score * 1)
       \<and> (Minutes (Sub currentTime timestamp) = halfLifeMinutes td \<longrightarrow>
            Apply td score timestamp currentTime = score * max (minWeight td) (1 / 2))
       \<and> (Minutes (Sub currentTime timestamp) = 2 * halfLifeMinutes td \<longrightarrow>
            Apply td score timestamp currentTime = score * max (minWeight td) (1 / 4))"
  using assms Apply_bounds [of td score timestamp currentTime]
    Apply_at_age_0 [of td currentTime timestamp score]
    Apply_at_age_H [of td currentTime timestamp score]
    Apply_at_age_2H [of td currentTime timestamp score]
  by blast

text \<open>
  The default decay (half-life 30 minutes, floor 0.01) on a record one half-life old
  (30 minutes are 1800000000000 ns): the score 1 becomes 1/2.
\<close>

theorem C4_Apply_bounds_and_halving_witness:
  "enabled \<lparr>halfLifeMinutes = 30, minWeight = 1 / 100, enabled = True\<rparr>
   \<and> (0::real) < 30 \<and> (0::real) \<le> 1 / 100 \<and> (1::real) / 100 \<le> 1 \<and> (0::real) \<le> 1
   \<and> (0::int) \<le> 1800000000000
   \<and> Minutes (Sub 1800000000000 0) = 30
   \<and> Apply \<lparr>halfLifeMinutes = 30, minWeight = 1 / 100, enabled = True\<rparr> 1 0 1800000000000 = 1 / 2"
  using C4_Apply_bounds_and_halving
    [of "\<lparr>halfLifeMinutes = 30, minWeight = 1 / 100, enabled = True\<rparr>" 1 0 1800000000000]
  by (simp add: Minutes_eq Sub_def Let_def minDuration_def maxDuration_def)

text \<open>
  Claim C4 as stated fails where the floor is above one half: with half-life 30 and floor
  0.9, a record exactly one half-life old keeps the multiplier 0.9, not 0.5.
\<close>

theorem C4_half_at_H_counterexample:
  "enabled \<lparr>halfLifeMinutes = 30, minWeight = 9 / 10, enabled = True\<rparr>
   \<and> (0::real) \<le> 9 / 10 \<and> (9::real) / 10 \<le> 1
   \<and> Minutes (Sub 1800000000000 0) = 30
   \<and> Apply \<lparr>halfLifeMinutes = 30, minWeight = 9 / 10, enabled = True\<rparr> 1 0 1800000000000 = 9 / 10
   \<and> \<bar>Apply \<lparr>halfLifeMinutes = 30, minWeight = 9 / 10, enabled = True\<rparr> 1 0 1800000000000
        - 1 * (1 / 2)\<bar> > 1 / 1000000000"
  by (simp add: Apply_enabled Minutes_eq Sub_def Let_def minDuration_def maxDuration_def
      exp_minus)





subsection \<open>Fusion: the maps of a merge\<close>


lemma weightedStaticLoop_fst:
  "fst (weightedStaticLoop rm xs (sm, resm)) k =
     (case filter (\<lambda>s. ID s = k) xs of
        [] \<Rightarrow> sm k
      | s # ss \<Rightarrow> Some (Score (last (s # ss)) * StaticWeight (rm_config rm)))"
proof (induction xs arbitrary: sm resm)
  case Nil
  show ?case by simp
next
  case (Cons x xs)
  show ?case
    by (simp add: Cons.IH Let_def split: list.splits)
qed

lemma weightedStaticLoop_snd:
  "snd (weightedStaticLoop rm xs (sm, resm)) k =
     (case filter (\<lambda>s. ID s = k) xs of
        [] \<Rightarrow> resm k
      | s # ss \<Rightarrow> Some (last (s # ss)))"
proof (induction xs arbitrary: sm resm)
  case Nil
  show ?case by simp
next
  case (Cons x xs)
  show ?case
    by (simp add: Cons.IH Let_def split: list.splits)
qed

lemma weightedConvLoop_fst:
  "fst (weightedConvLoop rm now cs (sm, resm)) k =
     (case filter (\<lambda>c. ID c = k) cs of
        [] \<Rightarrow> sm k
      | c # cc \<Rightarrow>
          Some ((case sm k of Some x \<Rightarrow> x | None \<Rightarrow> 0)
                + sum_list (map (convWeightedScore rm now) (c # cc))))"
proof (induction cs arbitrary: sm resm)
  case Nil
  show ?case by simp
next
  case (Cons x xs)
  show ?case
    by (cases "sm (ID x)") (auto simp add: Cons.IH Let_def split: list.splits)
qed

lemma weightedConvLoop_snd_kept:
  "dom sm = dom resm \<Longrightarrow> resm k = Some r \<Longrightarrow>
   snd (weightedConvLoop rm now cs (sm, resm)) k = Some r"
proof (induction cs arbitrary: sm resm)
  case Nil
  then show ?case by simp
next
  case (Cons x xs)
  show ?case
  proof (cases "sm (ID x)")
    case None
    then have "ID x \<notin> dom resm" using Cons.prems(1) by auto
    then have ne: "ID x \<noteq> k" using Cons.prems(2) by auto
    have d: "dom (sm(ID x \<mapsto> convWeightedScore rm now x)) = dom (resm(ID x \<mapsto> x))"
      using Cons.prems(1) by simp
    have r: "(resm(ID x \<mapsto> x)) k = Some r" using ne Cons.prems(2) by simp
    have step: "weightedConvLoop rm now (x # xs) (sm, resm) =
        weightedConvLoop rm now xs (sm(ID x \<mapsto> convWeightedScore rm now x), resm(ID x \<mapsto> x))"
      using None by (simp add: Let_def)
    show ?thesis unfolding step by (rule Cons.IH [OF d r])
  next
    case (Some a)
    then have "ID x \<in> dom sm" by auto
    then have d: "dom (sm(ID x \<mapsto> a + convWeightedScore rm now x)) = dom resm"
      using Cons.prems(1) by auto
    have step: "weightedConvLoop rm now (x # xs) (sm, resm) =
        weightedConvLoop rm now xs (sm(ID x \<mapsto> a + convWeightedScore rm now x), resm)"
      using Some by (simp add: Let_def)
    show ?thesis unfolding step by (rule Cons.IH [OF d Cons.prems(2)])
  qed
qed

lemma weightedConvLoop_inv:
  "dom sm = dom resm \<Longrightarrow> keyedByID resm \<Longrightarrow>
   dom (fst (weightedConvLoop rm now cs (sm, resm))) = dom (snd (weightedConvLoop rm now cs (sm, resm)))
   \<and> keyedByID (snd (weightedConvLoop rm now cs (sm, resm)))"
proof (induction cs arbitrary: sm resm)
  case Nil
  then show ?case by simp
next
  case (Cons x xs)
  show ?case
  proof (cases "sm (ID x)")
    case None
    have d: "dom (sm(ID x \<mapsto> convWeightedScore rm now x)) = dom (resm(ID x \<mapsto> x))"
      using Cons.prems(1) by simp
    have k: "keyedByID (resm(ID x \<mapsto> x))"
      using Cons.prems(2) by (simp add: keyedByID_def)
    have step: "weightedConvLoop rm now (x # xs) (sm, resm) =
        weightedConvLoop rm now xs (sm(ID x \<mapsto> convWeightedScore rm now x), resm(ID x \<mapsto> x))"
      using None by (simp add: Let_def)
    show ?thesis unfolding step by (rule Cons.IH [OF d k])
  next
    case (Some a)
    then have "ID x \<in> dom sm" by auto
    then have d: "dom (sm(ID x \<mapsto> a + convWeightedScore rm now x)) = dom resm"
      using Cons.prems(1) by auto
    have step: "weightedConvLoop rm now (x # xs) (sm, resm) =
        weightedConvLoop rm now xs (sm(ID x \<mapsto> a + convWeightedScore rm now x), resm)"
      using Some by (simp add: Let_def)
    show ?thesis unfolding step by (rule Cons.IH [OF d Cons.prems(2)])
  qed
qed

lemma weightedStaticLoop_inv:
  "dom sm = dom resm \<Longrightarrow> keyedByID resm \<Longrightarrow>
   dom (fst (weightedStaticLoop rm xs (sm, resm))) = dom (snd (weightedStaticLoop rm xs (sm, resm)))
   \<and> keyedByID (snd (weightedStaticLoop rm xs (sm, resm)))"
proof (induction xs arbitrary: sm resm)
  case Nil
  then show ?case by simp
next
  case (Cons x xs)
  have d: "dom (sm(ID x \<mapsto> Score x * StaticWeight (rm_config rm))) = dom (resm(ID x \<mapsto> x))"
    using Cons.prems(1) by simp
  have k: "keyedByID (resm(ID x \<mapsto> x))"
    using Cons.prems(2) by (simp add: keyedByID_def)
  have step: "weightedStaticLoop rm (x # xs) (sm, resm) =
      weightedStaticLoop rm xs (sm(ID x \<mapsto> Score x * StaticWeight (rm_config rm)), resm(ID x \<mapsto> x))"
    by (simp add: Let_def)
  show ?case unfolding step by (rule Cons.IH [OF d k])
qed


lemma rrfStaticLoop_snd:
  "snd (rrfStaticLoop rm k rank xs (sm, resm)) i =
     (case filter (\<lambda>s. ID s = i) xs of
        [] \<Rightarrow> resm i
      | s # ss \<Rightarrow> Some (last (s # ss)))"
proof (induction xs arbitrary: sm resm rank)
  case Nil
  show ?case by simp
next
  case (Cons x xs)
  show ?case
    by (simp add: Cons.IH Let_def split: list.splits)
qed

lemma rrfStaticLoop_inv:
  "dom sm = dom resm \<Longrightarrow> keyedByID resm \<Longrightarrow>
   dom (fst (rrfStaticLoop rm k rank xs (sm, resm))) = dom (snd (rrfStaticLoop rm k rank xs (sm, resm)))
   \<and> keyedByID (snd (rrfStaticLoop rm k rank xs (sm, resm)))"
proof (induction xs arbitrary: sm resm rank)
  case Nil
  then show ?case by simp
next
  case (Cons x xs)
  let ?w = "1 / (k + real rank) * StaticWeight (rm_config rm)"
  have d: "dom (sm(ID x \<mapsto> ?w)) = dom (resm(ID x \<mapsto> x))"
    using Cons.prems(1) by simp
  have kb: "keyedByID (resm(ID x \<mapsto> x))"
    using Cons.prems(2) by (simp add: keyedByID_def)
  have step: "rrfStaticLoop rm k rank (x # xs) (sm, resm) =
      rrfStaticLoop rm k (Suc rank) xs (sm(ID x \<mapsto> ?w), resm(ID x \<mapsto> x))"
    by (simp add: Let_def)
  show ?case unfolding step by (rule Cons.IH [OF d kb])
qed

lemma rrfConvLoop_snd_kept:
  "dom sm = dom resm \<Longrightarrow> resm i = Some r \<Longrightarrow>
   snd (rrfConvLoop rm k rank cs (sm, resm)) i = Some r"
proof (induction cs arbitrary: sm resm rank)
  case Nil
  then show ?case by simp
next
  case (Cons x xs)
  let ?w = "1 / (k + real rank) * ConversationWeight (rm_config rm)"
  show ?case
  proof (cases "sm (ID x)")
    case None
    then have "ID x \<notin> dom resm" using Cons.prems(1) by auto
    then have ne: "ID x \<noteq> i" using Cons.prems(2) by auto
    have d: "dom (sm(ID x \<mapsto> ?w)) = dom (resm(ID x \<mapsto> x))"
      using Cons.prems(1) by simp
    have r: "(resm(ID x \<mapsto> x)) i = Some r" using ne Cons.prems(2) by simp
    have step: "rrfConvLoop rm k rank (x # xs) (sm, resm) =
        rrfConvLoop rm k (Suc rank) xs (sm(ID x \<mapsto> ?w), resm(ID x \<mapsto> x))"
      using None by (simp add: Let_def)
    show ?thesis unfolding step by (rule Cons.IH [OF d r])
  next
    case (Some a)
    then have "ID x \<in> dom sm" by auto
    then have d: "dom (sm(ID x \<mapsto> a + ?w)) = dom resm"
      using Cons.prems(1) by auto
    have step: "rrfConvLoop rm k rank (x # xs) (sm, resm) =
        rrfConvLoop rm k (Suc rank) xs (sm(ID x \<mapsto> a + ?w), resm)"
      using Some by (simp add: Let_def)
    show ?thesis unfolding step by (rule Cons.IH [OF d Cons.prems(2)])
  qed
qed

lemma rrfConvLoop_inv:
  "dom sm = dom resm \<Longrightarrow> keyedByID resm \<Longrightarrow>
   dom (fst (rrfConvLoop rm k rank cs (sm, resm))) = dom (snd (rrfConvLoop rm k rank cs (sm, resm)))
   \<and> keyedByID (snd (rrfConvLoop rm k rank cs (sm, resm)))"
proof (induction cs arbitrary: sm resm rank)
  case Nil
  then show ?case by simp
next
  case (Cons x xs)
  let ?w = "1 / (k + real rank) * ConversationWeight (rm_config rm)"
  show ?case
  proof (cases "sm (ID x)")
    case None
    have d: "dom (sm(ID x \<mapsto> ?w)) = dom (resm(ID x \<mapsto> x))"
      using Cons.prems(1) by simp
    have kb: "keyedByID (resm(ID x \<mapsto> x))"
      using Cons.prems(2) by (simp add: keyedByID_def)
    have step: "rrfConvLoop rm k rank (x # xs) (sm, resm) =
        rrfConvLoop rm k (Suc rank) xs (sm(ID x \<mapsto> ?w), resm(ID x \<mapsto> x))"
      using None by (simp add: Let_def)
    show ?thesis unfolding step by (rule Cons.IH [OF d kb])
  next
    case (Some a)
    then have "ID x \<in> dom sm" by auto
    then have d: "dom (sm(ID x \<mapsto> a + ?w)) = dom resm"
      using Cons.prems(1) by auto
    have step: "rrfConvLoop rm k rank (x # xs) (sm, resm) =
        rrfConvLoop rm k (Suc rank) xs (sm(ID x \<mapsto> a + ?w), resm)"
      using Some by (simp add: Let_def)
    show ?thesis unfolding step by (rule Cons.IH [OF d Cons.prems(2)])
  qed
qed

subsubsection \<open>The maps of either algorithm\<close>

lemma keyedByID_empty: "keyedByID Map.empty"
  by (simp add: keyedByID_def)

lemma weightedMaps_inv:
  "dom (fst (weightedMaps rm st cv now)) = dom (snd (weightedMaps rm st cv now))
   \<and> keyedByID (snd (weightedMaps rm st cv now))"
proof -
  obtain sm resm where e: "weightedStaticLoop rm st (Map.empty, Map.empty) = (sm, resm)"
    by (cases "weightedStaticLoop rm st (Map.empty, Map.empty)")
  have "dom sm = dom resm \<and> keyedByID resm"
    using weightedStaticLoop_inv [of Map.empty Map.empty rm st] keyedByID_empty
    by (simp add: e)
  then show ?thesis
    unfolding weightedMaps_def e using weightedConvLoop_inv by blast
qed

lemma weightedMaps_static:
  assumes "s \<in> set st"
  shows "snd (weightedMaps rm st cv now) (ID s) = Some (retained st (ID s))"
proof -
  obtain sm resm where e: "weightedStaticLoop rm st (Map.empty, Map.empty) = (sm, resm)"
    by (cases "weightedStaticLoop rm st (Map.empty, Map.empty)")
  have inv: "dom sm = dom resm"
    using weightedStaticLoop_inv [of Map.empty Map.empty rm st] keyedByID_empty
    by (simp add: e)
  have "filter (\<lambda>x. ID x = ID s) st \<noteq> []"
    using assms by (auto simp: filter_empty_conv)
  then have "resm (ID s) = Some (retained st (ID s))"
    using weightedStaticLoop_snd [of rm st Map.empty Map.empty "ID s"]
    by (simp add: e retained_def split: list.splits)
  then show ?thesis
    unfolding weightedMaps_def e by (rule weightedConvLoop_snd_kept [OF inv])
qed

lemma rrfMaps_inv:
  "dom (fst (rrfMaps rm st cv now tie)) = dom (snd (rrfMaps rm st cv now tie))
   \<and> keyedByID (snd (rrfMaps rm st cv now tie))"
proof -
  let ?k = "real_of_int (RRFK (rm_config rm))"
  obtain sm resm where e: "rrfStaticLoop rm ?k 0 st (Map.empty, Map.empty) = (sm, resm)"
    by (cases "rrfStaticLoop rm ?k 0 st (Map.empty, Map.empty)")
  have "dom sm = dom resm \<and> keyedByID resm"
    using rrfStaticLoop_inv [of Map.empty Map.empty rm ?k 0 st] keyedByID_empty
    by (simp add: e)
  then show ?thesis
    unfolding rrfMaps_def Let_def e using rrfConvLoop_inv by blast
qed

lemma rrfMaps_static:
  assumes "s \<in> set st"
  shows "snd (rrfMaps rm st cv now tie) (ID s) = Some (retained st (ID s))"
proof -
  let ?k = "real_of_int (RRFK (rm_config rm))"
  obtain sm resm where e: "rrfStaticLoop rm ?k 0 st (Map.empty, Map.empty) = (sm, resm)"
    by (cases "rrfStaticLoop rm ?k 0 st (Map.empty, Map.empty)")
  have inv: "dom sm = dom resm"
    using rrfStaticLoop_inv [of Map.empty Map.empty rm ?k 0 st] keyedByID_empty
    by (simp add: e)
  have "filter (\<lambda>x. ID x = ID s) st \<noteq> []"
    using assms by (auto simp: filter_empty_conv)
  then have "resm (ID s) = Some (retained st (ID s))"
    using rrfStaticLoop_snd [of rm ?k 0 st Map.empty Map.empty "ID s"]
    by (simp add: e retained_def split: list.splits)
  then show ?thesis
    unfolding rrfMaps_def Let_def e by (rule rrfConvLoop_snd_kept [OF inv])
qed

lemma mergeMapsOf_inv:
  "dom (fst (mergeMapsOf rm st cv now ch)) = dom (snd (mergeMapsOf rm st cv now ch))
   \<and> keyedByID (snd (mergeMapsOf rm st cv now ch))"
  using weightedMaps_inv rrfMaps_inv by (simp add: mergeMapsOf_def)

lemma mergeMapsOf_static:
  "s \<in> set st \<Longrightarrow> snd (mergeMapsOf rm st cv now ch) (ID s) = Some (retained st (ID s))"
  using weightedMaps_static rrfMaps_static by (simp add: mergeMapsOf_def)

lemma Merge_collect:
  "Merge rm st cv now ch =
     sortByScoreDesc (collectResults (mergeMapsOf rm st cv now ch) (keyOrder ch))"
  by (simp add: Merge_def mergeMapsOf_def mergeRRF_def mergeWeighted_def)

subsubsection \<open>The final loop and the sort\<close>

lemma collectResults_ID:
  assumes "dom (fst maps) = dom (snd maps)" and "keyedByID (snd maps)"
    and "set keys \<subseteq> dom (fst maps)"
  shows "map ID (collectResults maps keys) = keys"
proof -
  have "\<And>k. k \<in> set keys \<Longrightarrow>
      ID (case snd maps k of Some r \<Rightarrow> r | None \<Rightarrow> zeroSearchResult) = k"
  proof -
    fix k assume "k \<in> set keys"
    then have "k \<in> dom (snd maps)" using assms(1,3) by auto
    then obtain r where r: "snd maps k = Some r" by auto
    then have "ID r = k" using assms(2) by (simp add: keyedByID_def)
    then show "ID (case snd maps k of Some r \<Rightarrow> r | None \<Rightarrow> zeroSearchResult) = k"
      by (simp add: r)
  qed
  then show ?thesis
    by (simp add: collectResults_def Let_def map_idI)
qed

lemma filter_eq_key:
  "distinct keys \<Longrightarrow> k \<in> set keys \<Longrightarrow> filter (\<lambda>x. x = k) keys = [k]"
proof (induction keys)
  case Nil
  then show ?case by simp
next
  case (Cons a keys)
  show ?case
  proof (cases "a = k")
    case True
    then have "k \<notin> set keys" using Cons.prems(1) by simp
    then have "filter (\<lambda>x. x = k) keys = []" by (auto simp add: filter_empty_conv)
    then show ?thesis using True by simp
  next
    case False
    then show ?thesis using Cons by simp
  qed
qed

lemma filter_map_distinct_key:
  assumes "distinct keys" and "k \<in> set keys" and "\<And>x. x \<in> set keys \<Longrightarrow> f (g x) = x"
  shows "filter (\<lambda>r. f r = k) (map g keys) = [g k]"
proof -
  have "filter (\<lambda>r. f r = k) (map g keys) = map g (filter (\<lambda>x. f (g x) = k) keys)"
    by (simp add: filter_map comp_def)
  also have "filter (\<lambda>x. f (g x) = k) keys = filter (\<lambda>x. x = k) keys"
    by (rule filter_cong) (simp_all add: assms(3))
  also have "\<dots> = [k]" by (rule filter_eq_key [OF assms(1,2)])
  finally show ?thesis by simp
qed



lemma ideal_structOf: "ideal (structOf c) = c"
  by (simp add: ideal_def structOf_def)

lemma defaultMerger_new:
  assumes "deref \<sigma> p = structOf DefaultMergeConfig"
  shows "NewResultMerger \<sigma> p =
           Inr \<lparr> rm_config = p,
                 rm_temporalDecay =
                   \<lparr> halfLifeMinutes = 30, minWeight = 1 / 100, enabled = True \<rparr> \<rparr>"
    and "readMerger \<sigma>
           \<lparr> rm_config = p,
             rm_temporalDecay = \<lparr> halfLifeMinutes = 30, minWeight = 1 / 100, enabled = True \<rparr> \<rparr>
         = defaultMerger"
proof -
  have v: "Validate (structOf DefaultMergeConfig) = None"
    by (simp add: Validate_def structOf_def DefaultMergeConfig_def)
  show "NewResultMerger \<sigma> p =
           Inr \<lparr> rm_config = p,
                 rm_temporalDecay =
                   \<lparr> halfLifeMinutes = 30, minWeight = 1 / 100, enabled = True \<rparr> \<rparr>"
    by (simp add: NewResultMerger_def assms v ideal_structOf Let_def)
      (simp add: DefaultMergeConfig_def NewTemporalDecay_def)
  show "readMerger \<sigma>
           \<lparr> rm_config = p,
             rm_temporalDecay = \<lparr> halfLifeMinutes = 30, minWeight = 1 / 100, enabled = True \<rparr> \<rparr>
         = defaultMerger"
    by (simp add: readMerger_def assms ideal_structOf defaultMerger_def)
qed

lemma collectResults_pointwise:
  assumes "dom (fst maps) = dom (snd maps)" and "keyedByID (snd maps)"
    and "k \<in> dom (fst maps)"
  shows "\<exists>r sc. snd maps k = Some r \<and> fst maps k = Some sc \<and> ID r = k
           \<and> collectResults maps [k] = [r\<lparr>Score := sc\<rparr>]"
proof -
  from assms(3) obtain sc where sc: "fst maps k = Some sc" by auto
  from assms(1,3) have "k \<in> dom (snd maps)" by simp
  then obtain r where r: "snd maps k = Some r" by auto
  then have "ID r = k" using assms(2) by (simp add: keyedByID_def)
  then show ?thesis by (simp add: collectResults_def sc r)
qed

lemma collectResults_map:
  "collectResults maps keys = map (\<lambda>k. hd (collectResults maps [k])) keys"
  by (simp add: collectResults_def)

lemma collectResults_hd_ID:
  assumes "dom (fst maps) = dom (snd maps)" and "keyedByID (snd maps)"
    and "k \<in> dom (fst maps)"
  shows "ID (hd (collectResults maps [k])) = k"
  using collectResults_pointwise [OF assms] by auto

lemma filter_collectResults:
  assumes inv: "dom (fst maps) = dom (snd maps)" "keyedByID (snd maps)"
    and ord: "iterationOrder keys (fst maps)" and k: "k \<in> dom (fst maps)"
  shows "filter (\<lambda>r. ID r = k) (collectResults maps keys) = collectResults maps [k]"
proof -
  have d: "distinct keys" and s: "set keys = dom (fst maps)"
    using ord by (simp_all add: iterationOrder_def)
  have "filter (\<lambda>r. ID r = k) (map (\<lambda>k. hd (collectResults maps [k])) keys)
        = [hd (collectResults maps [k])]"
  proof (rule filter_map_distinct_key [OF d])
    show "k \<in> set keys" using k s by simp
  next
    fix x assume "x \<in> set keys"
    then show "ID (hd (collectResults maps [x])) = x"
      using collectResults_hd_ID [OF inv] s by simp
  qed
  moreover have "[hd (collectResults maps [k])] = collectResults maps [k]"
    by (simp add: collectResults_def)
  ultimately show ?thesis using collectResults_map [of maps keys] by simp
qed

lemma sortByScoreDesc_filter:
  "filter P (sortByScoreDesc rs) = sortByScoreDesc (filter P rs)"
  by (simp add: sortByScoreDesc_def filter_sort)

lemma sortByScoreDesc_single: "sortByScoreDesc [r] = [r]"
  by (simp add: sortByScoreDesc_def)

lemma sortByScoreDesc_set: "set (sortByScoreDesc rs) = set rs"
  by (simp add: sortByScoreDesc_def)

lemma sortByScoreDesc_sorted: "sortedByScoreDesc (sortByScoreDesc rs)"
proof -
  have "sorted (map (\<lambda>r. - Score r) (sort_key (\<lambda>r. - Score r) rs))"
    by (rule sorted_sort_key)
  then show ?thesis by (simp add: sortByScoreDesc_def sortedByScoreDesc_def sorted_map)
qed

lemma sortByScoreDesc_mset: "mset (sortByScoreDesc rs) = mset rs"
  by (simp add: sortByScoreDesc_def)

text \<open>For a legal tie order the model's sort returns a sorted permutation of its input.\<close>

lemma rearrange_legal:
  assumes "legalTieOrder ties xs"
  shows "mset (rearrange ties xs) = mset xs"
proof -
  have "mset (filter (\<lambda>i. i < length xs) ties)
          = filter_mset (\<lambda>i. i < length xs) (mset ties)"
    by simp
  also have "\<dots> = filter_mset (\<lambda>i. i < length xs) (mset [0..<length xs])"
    using assms by (simp only: legalTieOrder_def)
  also have "\<dots> = mset (filter (\<lambda>i. i < length xs) [0..<length xs])"
    by (simp only: mset_filter)
  also have "filter (\<lambda>i. i < length xs) [0..<length xs] = [0..<length xs]"
    by (rule filter_True) simp
  finally have "mset (filter (\<lambda>i. i < length xs) ties) = mset [0..<length xs]" .
  then have "image_mset (\<lambda>i. xs ! i) (mset (filter (\<lambda>i. i < length xs) ties))
      = image_mset (\<lambda>i. xs ! i) (mset [0..<length xs])"
    by (rule arg_cong)
  then have "mset (map (\<lambda>i. xs ! i) (filter (\<lambda>i. i < length xs) ties))
      = mset (map (\<lambda>i. xs ! i) [0..<length xs])"
    by (simp only: mset_map)
  then show ?thesis by (simp add: rearrange_def map_nth)
qed

lemma sort_rearranged:
  assumes "legalTieOrder ties xs"
  shows "mset (sortByScoreDesc (rearrange ties xs)) = mset xs"
    and "sortedByScoreDesc (sortByScoreDesc (rearrange ties xs))"
  using rearrange_legal [OF assms] by (simp_all add: sortByScoreDesc_mset sortByScoreDesc_sorted)

lemma Merge_static_record:
  assumes ord: "iterationOrder (keyOrder ch) (fst (mergeMapsOf rm st cv now ch))"
    and s: "s \<in> set st"
  shows "\<exists>fused. fst (mergeMapsOf rm st cv now ch) (ID s) = Some fused
           \<and> filter (\<lambda>r. ID r = ID s) (Merge rm st cv now ch)
               = [(retained st (ID s))\<lparr>Score := fused\<rparr>]"
proof -
  let ?maps = "mergeMapsOf rm st cv now ch"
  have inv: "dom (fst ?maps) = dom (snd ?maps)" "keyedByID (snd ?maps)"
    using mergeMapsOf_inv by blast+
  have kept: "snd ?maps (ID s) = Some (retained st (ID s))"
    by (rule mergeMapsOf_static [OF s])
  then have k: "ID s \<in> dom (fst ?maps)" using inv(1) by auto
  obtain r sc where p: "snd ?maps (ID s) = Some r" "fst ?maps (ID s) = Some sc"
      "collectResults ?maps [ID s] = [r\<lparr>Score := sc\<rparr>]"
    using collectResults_pointwise [OF inv k] by blast
  have r: "r = retained st (ID s)" using kept p(1) by simp
  have "filter (\<lambda>r. ID r = ID s) (Merge rm st cv now ch)
        = sortByScoreDesc (collectResults ?maps [ID s])"
    by (simp add: Merge_collect sortByScoreDesc_filter filter_collectResults [OF inv ord k])
  then show ?thesis using p r by (simp add: sortByScoreDesc_single)
qed

lemma retained_distinct:
  assumes "distinct (map ID st)" and "s \<in> set st"
  shows "retained st (ID s) = s"
proof -
  have "filter (\<lambda>x. ID x = ID s) st = [s]"
    using assms
  proof (induction st)
    case Nil
    then show ?case by simp
  next
    case (Cons a st)
    show ?case
    proof (cases "a = s")
      case True
      then have "ID s \<notin> ID ` set st" using Cons.prems(1) by simp
      then have "\<forall>x\<in>set st. ID x \<noteq> ID s" by (metis imageI)
      then have "filter (\<lambda>x. ID x = ID s) st = []" by (simp add: filter_empty_conv)
      then show ?thesis using True by simp
    next
      case False
      then have m: "s \<in> set st" using Cons.prems(2) by simp
      then have "ID a \<noteq> ID s" using Cons.prems(1) by auto
      then show ?thesis using Cons.IH m Cons.prems(1) by simp
    qed
  qed
  then show ?thesis by (simp add: retained_def)
qed



lemma weightedMaps_fst:
  "fst (weightedMaps rm st cv now) k =
     (if filter (\<lambda>s. ID s = k) st = [] \<and> filter (\<lambda>c. ID c = k) cv = [] then None
      else Some ((case filter (\<lambda>s. ID s = k) st of
                    [] \<Rightarrow> 0
                  | s # ss \<Rightarrow> Score (last (s # ss)) * StaticWeight (rm_config rm))
                 + sum_list (map (convWeightedScore rm now) (filter (\<lambda>c. ID c = k) cv))))"
proof -
  obtain sm resm where e: "weightedStaticLoop rm st (Map.empty, Map.empty) = (sm, resm)"
    by (cases "weightedStaticLoop rm st (Map.empty, Map.empty)")
  have sm: "sm k = (case filter (\<lambda>s. ID s = k) st of
                      [] \<Rightarrow> None
                    | s # ss \<Rightarrow> Some (Score (last (s # ss)) * StaticWeight (rm_config rm)))"
    using weightedStaticLoop_fst [of rm st Map.empty Map.empty k] by (simp add: e)
  have "fst (weightedMaps rm st cv now) k =
          (case filter (\<lambda>c. ID c = k) cv of
             [] \<Rightarrow> sm k
           | c # cc \<Rightarrow>
               Some ((case sm k of Some x \<Rightarrow> x | None \<Rightarrow> 0)
                     + sum_list (map (convWeightedScore rm now) (c # cc))))"
    unfolding weightedMaps_def e by (rule weightedConvLoop_fst)
  then show ?thesis
    by (simp add: sm split: list.splits)
qed

lemma weightedMaps_dom:
  "dom (fst (weightedMaps rm st cv now)) = ID ` set st \<union> ID ` set cv"
proof (rule set_eqI)
  fix k
  have a: "filter (\<lambda>s. ID s = k) st = [] \<longleftrightarrow> k \<notin> ID ` set st"
    by (auto simp: filter_empty_conv)
  have b: "filter (\<lambda>s. ID s = k) cv = [] \<longleftrightarrow> k \<notin> ID ` set cv"
    by (auto simp: filter_empty_conv)
  have "k \<in> dom (fst (weightedMaps rm st cv now)) \<longleftrightarrow>
        \<not> (filter (\<lambda>s. ID s = k) st = [] \<and> filter (\<lambda>c. ID c = k) cv = [])"
    by (simp add: dom_def weightedMaps_fst)
  then show "k \<in> dom (fst (weightedMaps rm st cv now)) \<longleftrightarrow> k \<in> ID ` set st \<union> ID ` set cv"
    using a b by blast
qed

lemma mergeWeighted_ids:
  assumes ord: "iterationOrder keys (fst (weightedMaps rm st cv now))"
  shows "distinct (map ID (mergeWeighted rm st cv now keys))"
    and "set (map ID (mergeWeighted rm st cv now keys)) = ID ` set st \<union> ID ` set cv"
proof -
  let ?maps = "weightedMaps rm st cv now"
  have inv: "dom (fst ?maps) = dom (snd ?maps)" "keyedByID (snd ?maps)"
    using weightedMaps_inv by blast+
  have d: "distinct keys" and s: "set keys = dom (fst ?maps)"
    using ord by (simp_all add: iterationOrder_def)
  have ids: "map ID (collectResults ?maps keys) = keys"
    by (rule collectResults_ID [OF inv]) (simp add: s)
  have m: "mset (map ID (mergeWeighted rm st cv now keys)) = mset keys"
    using ids by (metis mergeWeighted_def mset_map sortByScoreDesc_mset)
  show "distinct (map ID (mergeWeighted rm st cv now keys))"
    using m d by (metis mset_eq_imp_distinct_iff)
  show "set (map ID (mergeWeighted rm st cv now keys)) = ID ` set st \<union> ID ` set cv"
    using m s weightedMaps_dom by (metis mset_eq_setD)
qed

lemma mergeWeighted_score:
  assumes ord: "iterationOrder keys (fst (weightedMaps rm st cv now))"
    and r: "r \<in> set (mergeWeighted rm st cv now keys)"
  shows "Score r =
           (case filter (\<lambda>s. ID s = ID r) st of
              [] \<Rightarrow> 0
            | s # ss \<Rightarrow> Score (last (s # ss)) * StaticWeight (rm_config rm))
           + sum_list (map (convWeightedScore rm now) (filter (\<lambda>c. ID c = ID r) cv))"
proof -
  let ?maps = "weightedMaps rm st cv now"
  have inv: "dom (fst ?maps) = dom (snd ?maps)" "keyedByID (snd ?maps)"
    using weightedMaps_inv by blast+
  have s: "set keys = dom (fst ?maps)"
    using ord by (simp add: iterationOrder_def)
  have "r \<in> set (collectResults ?maps keys)"
    using r by (simp add: mergeWeighted_def sortByScoreDesc_set)
  then obtain k where k: "k \<in> set keys" and rk: "r = hd (collectResults ?maps [k])"
    using collectResults_map [of ?maps keys] by auto
  have kd: "k \<in> dom (fst ?maps)" using k s by simp
  obtain r0 sc where p: "fst ?maps k = Some sc" "ID r0 = k"
      "collectResults ?maps [k] = [r0\<lparr>Score := sc\<rparr>]"
    using collectResults_pointwise [OF inv kd] by blast
  have idr: "ID r = k" and scr: "Score r = sc" using rk p by simp_all
  have "Some sc = fst ?maps (ID r)" using p(1) idr by simp
  also have "\<dots> = Some ((case filter (\<lambda>s. ID s = ID r) st of
              [] \<Rightarrow> 0
            | s # ss \<Rightarrow> Score (last (s # ss)) * StaticWeight (rm_config rm))
           + sum_list (map (convWeightedScore rm now) (filter (\<lambda>c. ID c = ID r) cv)))"
    using kd idr by (simp add: weightedMaps_fst dom_def split: if_splits)
  finally show ?thesis using scr by simp
qed




lemma collect_static_record:
  assumes inv: "dom (fst maps) = dom (snd maps)" "keyedByID (snd maps)"
    and ord: "iterationOrder keys (fst maps)"
    and kept: "snd maps i = Some r0"
  shows "\<exists>fused. fst maps i = Some fused
           \<and> filter (\<lambda>r. ID r = i) (sortByScoreDesc (collectResults maps keys))
               = [r0\<lparr>Score := fused\<rparr>]"
proof -
  have k: "i \<in> dom (fst maps)" using kept inv(1) by auto
  obtain r sc where p: "snd maps i = Some r" "fst maps i = Some sc"
      "collectResults maps [i] = [r\<lparr>Score := sc\<rparr>]"
    using collectResults_pointwise [OF inv k] by blast
  have r: "r = r0" using kept p(1) by simp
  have "filter (\<lambda>r. ID r = i) (sortByScoreDesc (collectResults maps keys))
        = sortByScoreDesc (collectResults maps [i])"
    by (simp add: sortByScoreDesc_filter filter_collectResults [OF inv ord k])
  then show ?thesis using p r by (simp add: sortByScoreDesc_single)
qed

lemma mergeWeighted_static_record:
  assumes "iterationOrder keys (fst (weightedMaps rm st cv now))" and "s \<in> set st"
  shows "\<exists>fused. fst (weightedMaps rm st cv now) (ID s) = Some fused
           \<and> filter (\<lambda>r. ID r = ID s) (mergeWeighted rm st cv now keys)
               = [(retained st (ID s))\<lparr>Score := fused\<rparr>]"
  unfolding mergeWeighted_def
  using collect_static_record [OF _ _ assms(1) weightedMaps_static [OF assms(2)]]
    weightedMaps_inv [of rm st cv now]
  by blast

lemma mergeRRF_static_record:
  assumes "iterationOrder keys (fst (rrfMaps rm st cv now tie))" and "s \<in> set st"
  shows "\<exists>fused. fst (rrfMaps rm st cv now tie) (ID s) = Some fused
           \<and> filter (\<lambda>r. ID r = ID s) (mergeRRF rm st cv now tie keys)
               = [(retained st (ID s))\<lparr>Score := fused\<rparr>]"
  unfolding mergeRRF_def
  using collect_static_record [OF _ _ assms(1) rrfMaps_static [OF assms(2)]]
    rrfMaps_inv [of rm st cv now tie]
  by blast

lemma rrfMerger_new:
  assumes "deref \<sigma> p = structOf rrfConfig"
  shows "map_sum id (readMerger \<sigma>) (NewResultMerger \<sigma> p) = Inr rrfMerger"
proof -
  have v: "Validate (structOf rrfConfig) = None"
    by (simp add: Validate_def structOf_def rrfConfig_def)
  show ?thesis
    by (simp add: NewResultMerger_def readMerger_def assms v ideal_structOf Let_def)
      (simp add: rrfConfig_def rrfMerger_def NewTemporalDecay_def)
qed

lemma S2_weighted:
  "mergeWeighted defaultMerger
     [resultOf ''X'' 1 SourceStatic None]
     [resultOf ''X'' 1 SourceConversation (Some now)] now [''X'']
   = [resultOf ''X'' 1 SourceStatic None]"
  by (simp add: mergeWeighted_def weightedMaps_def collectResults_def sortByScoreDesc_def
      defaultMerger_def DefaultMergeConfig_def resultOf_def convWeightedScore_def Apply_enabled
      Sub_def Minutes_eq minDuration_def maxDuration_def Let_def)

lemma S2_weighted_order:
  "iterationOrder [''X''] (fst (weightedMaps defaultMerger
     [resultOf ''X'' 1 SourceStatic None]
     [resultOf ''X'' 1 SourceConversation (Some now)] now))"
  by (simp add: iterationOrder_def weightedMaps_dom resultOf_def)

lemma S2_rrf_maps:
  "fst (rrfMaps rrfMerger
     [resultOf ''X'' 1 SourceStatic None]
     [resultOf ''X'' 1 SourceConversation (Some now)] now [0]) = [''X'' \<mapsto> 1 / 60]"
  by (simp add: rrfMaps_def rrfMerger_def rrfConfig_def resultOf_def ApplyToResults_def
      rearrange_def sortByScoreDesc_def Apply_disabled Let_def SourceConversation_def)

lemma S2_rrf_order:
  "iterationOrder [''X''] (fst (rrfMaps rrfMerger
     [resultOf ''X'' 1 SourceStatic None]
     [resultOf ''X'' 1 SourceConversation (Some now)] now [0]))"
  by (simp add: S2_rrf_maps iterationOrder_def)

subsection \<open>Fusion: weighted mode\<close>

text \<open>
  Claim C1. In weighted mode, whatever the two input lists, the reference time and the order
  in which the runtime visits \<^verbatim>\<open>scoreMap\<close>: the fused score of every returned record is
  the sum of its static contribution (the static score times the static weight, 0 when
  the identifier is not in the static list; an identifier that repeats in the static list
  counts through its last record, see \<open>retained\<close>) and of its conversation contributions
  (the score times the conversation weight, passed through \<open>Apply\<close> when the record has a
  timestamp and left as it is when the timestamp is nil). The output holds each input
  identifier once and is sorted by descending fused score. Scenario S2 (static \<open>X = 1\<close>,
  conversation \<open>X = 1\<close> at the reference time, default weights 0.6 and 0.4, decay enabled)
  fuses to exactly 1.
\<close>

theorem C1_mergeWeighted_sums_contributions:
  assumes "iterationOrder keys (fst (weightedMaps rm staticResults convResults currentTime))"
  shows "(\<forall>r \<in> set (mergeWeighted rm staticResults convResults currentTime keys).
            Score r =
              (if ID r \<in> ID ` set staticResults
               then Score (retained staticResults (ID r)) * StaticWeight (rm_config rm)
               else 0)
              + (\<Sum>c \<leftarrow> filter (\<lambda>c. ID c = ID r) convResults.
                   case Timestamp c of
                     Some ts \<Rightarrow>
                       Apply (rm_temporalDecay rm) (Score c * ConversationWeight (rm_config rm))
                         ts currentTime
                   | None \<Rightarrow> Score c * ConversationWeight (rm_config rm)))
       \<and> set (map ID (mergeWeighted rm staticResults convResults currentTime keys))
           = ID ` set staticResults \<union> ID ` set convResults
       \<and> distinct (map ID (mergeWeighted rm staticResults convResults currentTime keys))
       \<and> sortedByScoreDesc (mergeWeighted rm staticResults convResults currentTime keys)
       \<and> mergeWeighted defaultMerger
            [resultOf ''X'' 1 SourceStatic None]
            [resultOf ''X'' 1 SourceConversation (Some currentTime)] currentTime [''X'']
           = [resultOf ''X'' 1 SourceStatic None]"
proof -
  let ?out = "mergeWeighted rm staticResults convResults currentTime keys"
  have conv: "convWeightedScore rm currentTime =
      (\<lambda>c. case Timestamp c of
              Some ts \<Rightarrow>
                Apply (rm_temporalDecay rm) (Score c * ConversationWeight (rm_config rm))
                  ts currentTime
            | None \<Rightarrow> Score c * ConversationWeight (rm_config rm))"
    by (rule ext) (simp add: convWeightedScore_def Let_def split: option.splits)
  have stat: "\<And>i. (case filter (\<lambda>s. ID s = i) staticResults of
                     [] \<Rightarrow> 0
                   | s # ss \<Rightarrow> Score (last (s # ss)) * StaticWeight (rm_config rm))
                = (if i \<in> ID ` set staticResults
                   then Score (retained staticResults i) * StaticWeight (rm_config rm)
                   else 0)"
  proof -
    fix i
    have "filter (\<lambda>s. ID s = i) staticResults = [] \<longleftrightarrow> i \<notin> ID ` set staticResults"
      by (auto simp: filter_empty_conv)
    then show "(case filter (\<lambda>s. ID s = i) staticResults of
                     [] \<Rightarrow> 0
                   | s # ss \<Rightarrow> Score (last (s # ss)) * StaticWeight (rm_config rm))
                = (if i \<in> ID ` set staticResults
                   then Score (retained staticResults i) * StaticWeight (rm_config rm)
                   else 0)"
      by (cases "filter (\<lambda>s. ID s = i) staticResults") (simp_all add: retained_def)
  qed
  have scores: "\<forall>r \<in> set ?out.
            Score r =
              (if ID r \<in> ID ` set staticResults
               then Score (retained staticResults (ID r)) * StaticWeight (rm_config rm)
               else 0)
              + (\<Sum>c \<leftarrow> filter (\<lambda>c. ID c = ID r) convResults.
                   case Timestamp c of
                     Some ts \<Rightarrow>
                       Apply (rm_temporalDecay rm) (Score c * ConversationWeight (rm_config rm))
                         ts currentTime
                   | None \<Rightarrow> Score c * ConversationWeight (rm_config rm))"
  proof
    fix r assume "r \<in> set ?out"
    from mergeWeighted_score [OF assms this]
    show "Score r =
              (if ID r \<in> ID ` set staticResults
               then Score (retained staticResults (ID r)) * StaticWeight (rm_config rm)
               else 0)
              + (\<Sum>c \<leftarrow> filter (\<lambda>c. ID c = ID r) convResults.
                   case Timestamp c of
                     Some ts \<Rightarrow>
                       Apply (rm_temporalDecay rm) (Score c * ConversationWeight (rm_config rm))
                         ts currentTime
                   | None \<Rightarrow> Score c * ConversationWeight (rm_config rm))"
      by (simp only: stat conv)
  qed
  have sorted: "sortedByScoreDesc ?out"
    unfolding mergeWeighted_def by (rule sortByScoreDesc_sorted)
  show ?thesis
    using scores mergeWeighted_ids [OF assms] sorted S2_weighted by blast
qed

text \<open>The theorem on scenario S2, where \<open>X\<close> is the only key of the score map.\<close>

theorem C1_mergeWeighted_sums_contributions_witness:
  "iterationOrder [''X'']
     (fst (weightedMaps defaultMerger [resultOf ''X'' 1 SourceStatic None]
             [resultOf ''X'' 1 SourceConversation (Some 0)] 0))
   \<and> set (map ID (mergeWeighted defaultMerger [resultOf ''X'' 1 SourceStatic None]
                    [resultOf ''X'' 1 SourceConversation (Some 0)] 0 [''X''])) = {''X''}
   \<and> sortedByScoreDesc (mergeWeighted defaultMerger [resultOf ''X'' 1 SourceStatic None]
                    [resultOf ''X'' 1 SourceConversation (Some 0)] 0 [''X''])
   \<and> map Score (mergeWeighted defaultMerger [resultOf ''X'' 1 SourceStatic None]
                    [resultOf ''X'' 1 SourceConversation (Some 0)] 0 [''X'']) = [1]"
  using C1_mergeWeighted_sums_contributions
    [of "[''X'']" defaultMerger "[resultOf ''X'' 1 SourceStatic None]"
        "[resultOf ''X'' 1 SourceConversation (Some 0)]" 0]
    S2_weighted_order [of 0]
  by (simp add: resultOf_def sortedByScoreDesc_def)

subsection \<open>Fusion: what a merge leaves of a static record\<close>

text \<open>
  Claim C10. In weighted and in RRF merge, for every identifier of the static list (so in
  particular for one that is also in the conversation list), the output holds exactly one
  record with that identifier, and it is the static-side record with the field \<open>Score\<close>
  replaced by the fused score of the identifier: text, document identifier, source tag,
  timestamp and metadata are the static record's, the conversation record's payload is
  dropped. When static identifiers do not repeat, the static-side record is the record
  itself.
\<close>

theorem C10_merge_preserves_static_record:
  assumes "s \<in> set staticResults"
  shows "(iterationOrder keys (fst (weightedMaps rm staticResults convResults currentTime)) \<longrightarrow>
           (\<exists>fused.
              fst (weightedMaps rm staticResults convResults currentTime) (ID s) = Some fused
              \<and> filter (\<lambda>r. ID r = ID s)
                    (mergeWeighted rm staticResults convResults currentTime keys)
                  = [(retained staticResults (ID s))\<lparr>Score := fused\<rparr>]))
       \<and> (iterationOrder keys (fst (rrfMaps rm staticResults convResults currentTime ties)) \<longrightarrow>
           (\<exists>fused.
              fst (rrfMaps rm staticResults convResults currentTime ties) (ID s) = Some fused
              \<and> filter (\<lambda>r. ID r = ID s)
                    (mergeRRF rm staticResults convResults currentTime ties keys)
                  = [(retained staticResults (ID s))\<lparr>Score := fused\<rparr>]))
       \<and> (distinct (map ID staticResults) \<longrightarrow> retained staticResults (ID s) = s)"
  using assms mergeWeighted_static_record [of keys rm staticResults convResults currentTime s]
    mergeRRF_static_record [of keys rm staticResults convResults currentTime ties s]
    retained_distinct [of staticResults s]
  by blast

text \<open>
  The theorem on an identifier present in both lists, in weighted mode (fused score 1) and
  in RRF mode with \<open>k = 60\<close> and weights 1/2 (fused score 1/120 + 1/120).
\<close>

theorem C10_merge_preserves_static_record_witness:
  "resultOf ''X'' 1 SourceStatic None \<in> set [resultOf ''X'' 1 SourceStatic None]
   \<and> resultOf ''X'' 1 SourceConversation (Some 0)
       \<in> set [resultOf ''X'' 1 SourceConversation (Some 0)]
   \<and> distinct (map ID [resultOf ''X'' 1 SourceStatic None])
   \<and> iterationOrder [''X'']
       (fst (weightedMaps defaultMerger [resultOf ''X'' 1 SourceStatic None]
               [resultOf ''X'' 1 SourceConversation (Some 0)] 0))
   \<and> iterationOrder [''X'']
       (fst (rrfMaps rrfMerger [resultOf ''X'' 1 SourceStatic None]
               [resultOf ''X'' 1 SourceConversation (Some 0)] 0 [0]))
   \<and> filter (\<lambda>r. ID r = ''X'')
        (mergeWeighted defaultMerger [resultOf ''X'' 1 SourceStatic None]
           [resultOf ''X'' 1 SourceConversation (Some 0)] 0 [''X''])
       = [(resultOf ''X'' 1 SourceStatic None)\<lparr>Score := 1\<rparr>]
   \<and> filter (\<lambda>r. ID r = ''X'')
        (mergeRRF rrfMerger [resultOf ''X'' 1 SourceStatic None]
           [resultOf ''X'' 1 SourceConversation (Some 0)] 0 [0] [''X''])
       = [(resultOf ''X'' 1 SourceStatic None)\<lparr>Score := 1 / 60\<rparr>]"
proof -
  let ?s = "resultOf ''X'' 1 SourceStatic None"
  let ?c = "resultOf ''X'' 1 SourceConversation (Some 0)"
  have ids: "ID ?s = ''X''" by (simp add: resultOf_def)
  have mem: "?s \<in> set [?s]" by simp
  have ret: "retained [?s] ''X'' = ?s" by (simp add: retained_def resultOf_def)
  have w: "fst (weightedMaps defaultMerger [?s] [?c] 0) ''X'' = Some 1"
    by (simp add: weightedMaps_fst resultOf_def defaultMerger_def DefaultMergeConfig_def
        convWeightedScore_def Apply_enabled Sub_def Minutes_eq minDuration_def maxDuration_def
        Let_def)
  have r: "fst (rrfMaps rrfMerger [?s] [?c] 0 [0]) ''X'' = Some (1 / 60)"
    by (simp add: S2_rrf_maps)
  from C10_merge_preserves_static_record [OF mem, of "[''X'']" defaultMerger "[?c]" 0 "[0]"]
    S2_weighted_order [of 0]
  have A: "filter (\<lambda>r. ID r = ''X'') (mergeWeighted defaultMerger [?s] [?c] 0 [''X''])
       = [?s\<lparr>Score := 1\<rparr>]"
    by (simp only: ids ret w) auto
  from C10_merge_preserves_static_record [OF mem, of "[''X'']" rrfMerger "[?c]" 0 "[0]"]
    S2_rrf_order [of 0]
  have B: "filter (\<lambda>r. ID r = ''X'') (mergeRRF rrfMerger [?s] [?c] 0 [0] [''X''])
       = [?s\<lparr>Score := 1 / 60\<rparr>]"
    by (simp only: ids ret r) auto
  show ?thesis
    using A B S2_weighted_order [of 0] S2_rrf_order [of 0] by simp
qed



subsection \<open>Query builder\<close>


lemma formatFixed_eval:
  "roundHalfEven (\<bar>x\<bar> * 10 ^ prec) = s \<Longrightarrow>
   formatFixed prec x =
     (if x < 0 then ''-'' else []) @ formatNat (nat s div 10 ^ prec)
     @ (if prec = 0 then [] else ''.'' @ padZeros prec (formatNat (nat s mod 10 ^ prec)))"
  by (simp add: formatFixed_def Let_def)

lemma fmt_f32_1: "formatFixed 6 float32_0_1 = ''0.100000''"
proof -
  have r: "roundHalfEven (\<bar>float32_0_1\<bar> * 10 ^ 6) = 100000"
    by (simp add: roundHalfEven_def Let_def float32_0_1_def)
  have p: "\<not> float32_0_1 < 0" by (simp add: float32_0_1_def)
  show ?thesis
    unfolding formatFixed_eval [OF r]
    by (simp add: formatNat.simps digit_def padZeros_def p)
qed

lemma fmt_f32_2: "formatFixed 6 float32_0_2 = ''0.200000''"
proof -
  have r: "roundHalfEven (\<bar>float32_0_2\<bar> * 10 ^ 6) = 200000"
    by (simp add: roundHalfEven_def Let_def float32_0_2_def)
  have p: "\<not> float32_0_2 < 0" by (simp add: float32_0_2_def)
  show ?thesis
    unfolding formatFixed_eval [OF r]
    by (simp add: formatNat.simps digit_def padZeros_def p)
qed

lemma fmt_f32_3: "formatFixed 6 float32_0_3 = ''0.300000''"
proof -
  have r: "roundHalfEven (\<bar>float32_0_3\<bar> * 10 ^ 6) = 300000"
    by (simp add: roundHalfEven_def Let_def float32_0_3_def)
  have p: "\<not> float32_0_3 < 0" by (simp add: float32_0_3_def)
  show ?thesis
    unfolding formatFixed_eval [OF r]
    by (simp add: formatNat.simps digit_def padZeros_def p)
qed

lemma fmt_dec_1: "formatFixed 6 (1 / 10) = ''0.100000''"
proof -
  have r: "roundHalfEven (\<bar>1 / 10\<bar> * 10 ^ 6) = 100000"
    by (simp add: roundHalfEven_def Let_def)
  show ?thesis
    unfolding formatFixed_eval [OF r]
    by (simp add: formatNat.simps digit_def padZeros_def)
qed

lemma fmt_dec_2: "formatFixed 6 (2 / 10) = ''0.200000''"
proof -
  have r: "roundHalfEven (\<bar>2 / 10\<bar> * 10 ^ 6) = 200000"
    by (simp add: roundHalfEven_def Let_def)
  show ?thesis
    unfolding formatFixed_eval [OF r]
    by (simp add: formatNat.simps digit_def padZeros_def)
qed

lemma fmt_dec_3: "formatFixed 6 (3 / 10) = ''0.300000''"
proof -
  have r: "roundHalfEven (\<bar>3 / 10\<bar> * 10 ^ 6) = 300000"
    by (simp add: roundHalfEven_def Let_def)
  show ?thesis
    unfolding formatFixed_eval [OF r]
    by (simp add: formatNat.simps digit_def padZeros_def)
qed

lemma fmt_alpha: "formatFixed 2 (1 / 2) = ''0.50''"
proof -
  have r: "roundHalfEven (\<bar>1 / 2\<bar> * 10 ^ 2) = 50"
    by (simp add: roundHalfEven_def Let_def)
  show ?thesis
    unfolding formatFixed_eval [OF r]
    by (simp add: formatNat.simps digit_def padZeros_def)
qed

lemma fmt_limit_10: "formatInt 10 = ''10''"
  by (simp add: formatInt_def formatNat.simps digit_def)

lemma escape_plain: "escapeGraphQL ''machine learning'' = ''machine learning''"
  by (simp add: escapeGraphQL_def ReplaceAll_def Let_def)

lemma HybridQuery_f32:
  "HybridQuery (NewQueryBuilder ''KnowledgeBase'' 10) ''machine learning''
     [float32_0_1, float32_0_2, float32_0_3] (1 / 2) = snapshotS6"
  by (simp add: HybridQuery_def NewQueryBuilder_def formatVector_def fmt_f32_1 fmt_f32_2
      fmt_f32_3 fmt_alpha fmt_limit_10 escape_plain buildFieldList_def snapshotS6_def)

lemma HybridQuery_dec:
  "HybridQuery (NewQueryBuilder ''KnowledgeBase'' 10) ''machine learning''
     [1 / 10, 2 / 10, 3 / 10] (1 / 2) = snapshotS6"
  using fmt_dec_1 fmt_dec_2 fmt_dec_3
  by (simp add: HybridQuery_def NewQueryBuilder_def formatVector_def
      fmt_alpha fmt_limit_10 escape_plain buildFieldList_def snapshotS6_def)

lemma snapshot_parts:
  "sublist (''hybrid:{query:'' @ [CHR 0x22] @ ''machine learning'' @ [CHR 0x22]
            @ '',vector:[0.100000,0.200000,0.300000],alpha:0.50}'') snapshotS6"
  "sublist ''limit:10'' snapshotS6"
  "sublist ''title,content'' snapshotS6"
proof -
  let ?h = "''hybrid:{query:'' @ [CHR 0x22] @ ''machine learning'' @ [CHR 0x22]
            @ '',vector:[0.100000,0.200000,0.300000],alpha:0.50}''"
  have a: "snapshotS6 = ''{ Get { KnowledgeBase('' @ ?h @ ('','' @ ''limit:10'' @ ''){_additional{id,score,vector}'' @ ''title,content'' @ ''}}}'')"
    by (simp add: snapshotS6_def)
  show "sublist ?h snapshotS6" unfolding a by (rule sublist_appendI)
  have b: "snapshotS6 = (''{ Get { KnowledgeBase('' @ ?h @ '','') @ ''limit:10'' @ (''){_additional{id,score,vector}'' @ ''title,content'' @ ''}}}'')"
    by (simp add: snapshotS6_def)
  show "sublist ''limit:10'' snapshotS6" unfolding b by (rule sublist_appendI)
  have c: "snapshotS6 = (''{ Get { KnowledgeBase('' @ ?h @ '','' @ ''limit:10'' @ ''){_additional{id,score,vector}'') @ ''title,content'' @ ''}}}''"
    by (simp add: snapshotS6_def)
  show "sublist ''title,content'' snapshotS6" unfolding c by (rule sublist_appendI)
qed


text \<open>
  Claim C9. \<open>HybridQuery\<close> is a function of the builder's two fields and its three
  arguments, so equal inputs give the same bytes. On collection \<open>KnowledgeBase\<close> with
  limit 10, the text ``machine learning'', the vector \<open>[0.1, 0.2, 0.3]\<close> (as the nearest
  \<^verbatim>\<open>float32\<close> values, and as exact decimals) and \<open>\<alpha> = 0.5\<close>, it renders \<open>snapshotS6\<close>,
  which contains the hybrid clause, \<open>limit:10\<close> and the field list \<open>title,content\<close>.
\<close>

theorem C9_HybridQuery_pure_snapshot:
  "(qb = qb' \<and> queryText = queryText' \<and> vector = vector' \<and> alpha = alpha' \<longrightarrow>
      HybridQuery qb queryText vector alpha = HybridQuery qb' queryText' vector' alpha')
   \<and> HybridQuery (NewQueryBuilder ''KnowledgeBase'' 10) ''machine learning''
         [float32_0_1, float32_0_2, float32_0_3] (1 / 2) = snapshotS6
   \<and> HybridQuery (NewQueryBuilder ''KnowledgeBase'' 10) ''machine learning''
         [1 / 10, 2 / 10, 3 / 10] (1 / 2) = snapshotS6
   \<and> sublist (''hybrid:{query:'' @ [CHR 0x22] @ ''machine learning'' @ [CHR 0x22]
               @ '',vector:[0.100000,0.200000,0.300000],alpha:0.50}'') snapshotS6
   \<and> sublist ''limit:10'' snapshotS6
   \<and> sublist ''title,content'' snapshotS6"
  using HybridQuery_f32 HybridQuery_dec snapshot_parts by blast

text \<open>
  The theorem on the builder of scenario S6 written in two ways.
\<close>

theorem C9_HybridQuery_pure_snapshot_witness:
  "NewQueryBuilder ''KnowledgeBase'' 10 = \<lparr> className = ''KnowledgeBase'', limit = 10 \<rparr>
   \<and> HybridQuery (NewQueryBuilder ''KnowledgeBase'' 10) ''machine learning''
         [float32_0_1, float32_0_2, float32_0_3] (1 / 2)
       = HybridQuery \<lparr> className = ''KnowledgeBase'', limit = 10 \<rparr> ''machine learning''
           [float32_0_1, float32_0_2, float32_0_3] (1 / 2)
   \<and> HybridQuery \<lparr> className = ''KnowledgeBase'', limit = 10 \<rparr> ''machine learning''
         [float32_0_1, float32_0_2, float32_0_3] (1 / 2) = snapshotS6"
  using C9_HybridQuery_pure_snapshot
    [of "NewQueryBuilder ''KnowledgeBase'' 10" "\<lparr> className = ''KnowledgeBase'', limit = 10 \<rparr>"
        "''machine learning''" "''machine learning''"
        "[float32_0_1, float32_0_2, float32_0_3]" "[float32_0_1, float32_0_2, float32_0_3]"
        "1 / 2" "1 / 2"]
  by (simp add: NewQueryBuilder_def)

subsection \<open>Adapter: response parsing\<close>


lemma navigate_error:
  "navigate cur path = Inl err \<Longrightarrow>
   \<exists>key \<in> set path. err = Errorf (''key not found: '' @ key)
                     \<or> err = Errorf (''unexpected type at path '' @ key)"
proof (induction path arbitrary: cur)
  case Nil
  then show ?case by simp
next
  case (Cons key rest)
  show ?case
  proof (cases cur)
    case (JObj m)
    show ?thesis
    proof (cases "map_of m key")
      case None
      then show ?thesis using Cons.prems JObj by auto
    next
      case (Some v)
      then have "navigate v rest = Inl err" using Cons.prems JObj by simp
      from Cons.IH [OF this] show ?thesis by auto
    qed
  qed (use Cons.prems in auto)
qed

lemma staticObjects_Source: "r \<in> set (staticObjects objs) \<Longrightarrow> Source r = SourceStatic"
  by (induction objs) (auto split: json.splits)

lemma staticObjects_eq:
  "staticObjects objs =
     map (\<lambda>obj. case obj of JObj objMap \<Rightarrow> (extractSearchResult objMap)\<lparr>Source := SourceStatic\<rparr>
                  | _ \<Rightarrow> zeroSearchResult)
         (filter (\<lambda>obj. case obj of JObj _ \<Rightarrow> True | _ \<Rightarrow> False) objs)"
  by (induction objs) (auto split: json.splits)

lemma parseSearchResults_Inl:
  "parseSearchResults data path = Inl err \<longleftrightarrow> navigate (JObj data) path = Inl err"
  by (auto simp: parseSearchResults_def split: sum.splits json.splits)

lemma parseSearchResults_Inr:
  "navigate (JObj data) path = Inr cur \<Longrightarrow>
   parseSearchResults data path =
     Inr (case cur of JArr objs \<Rightarrow> staticObjects objs | _ \<Rightarrow> [])"
  by (auto simp: parseSearchResults_def split: sum.splits json.splits)

lemma extractContent_ID: "ID (extractContent objMap r) = ID r"
  by (simp add: extractContent_def split: option.splits json.splits)

lemma extractContent_Score: "Score (extractContent objMap r) = Score r"
  by (simp add: extractContent_def split: option.splits json.splits)

lemma extractContent_Text:
  "Text (extractContent objMap r) =
     (case map_of objMap ''message'' of
        Some (JStr message) \<Rightarrow> message
      | _ \<Rightarrow>
        (case map_of objMap ''content'' of
           Some (JStr content) \<Rightarrow> content
         | _ \<Rightarrow>
           (case map_of objMap ''title'' of
              Some (JStr title) \<Rightarrow> title
            | _ \<Rightarrow> Text r)))"
  by (simp add: extractContent_def split: option.splits json.splits)

lemma extractAdditional_ID:
  "ID (extractAdditional objMap r) =
     (case map_of objMap ''_additional'' of
        Some (JObj additional) \<Rightarrow>
          (case map_of additional ''id'' of Some (JStr i) \<Rightarrow> i | _ \<Rightarrow> ID r)
      | _ \<Rightarrow> ID r)"
  by (simp add: extractAdditional_def Let_def split: option.splits json.splits)

lemma extractAdditional_Score:
  "Score (extractAdditional objMap r) =
     (case map_of objMap ''_additional'' of
        Some (JObj additional) \<Rightarrow>
          (case map_of additional ''score'' of Some (JNum x) \<Rightarrow> x | _ \<Rightarrow> Score r)
      | _ \<Rightarrow> Score r)"
  by (simp add: extractAdditional_def Let_def split: option.splits json.splits)

lemma extractAdditional_Text: "Text (extractAdditional objMap r) = Text r"
  by (simp add: extractAdditional_def Let_def split: option.splits json.splits)

lemma extract_ID:
  "ID (extractSearchResult objMap) =
     (case map_of objMap ''_additional'' of
        Some (JObj additional) \<Rightarrow>
          (case map_of additional ''id'' of Some (JStr i) \<Rightarrow> i | _ \<Rightarrow> [])
      | _ \<Rightarrow> [])"
proof -
  let ?r0 = "zeroSearchResult\<lparr>Metadata := Map.empty\<rparr>"
  have z: "ID ?r0 = []" by (simp add: zeroSearchResult_def)
  have "ID (extractSearchResult objMap) = ID (extractAdditional objMap ?r0)"
    by (simp add: extractSearchResult_def Let_def extractMetadata_def extractContent_ID)
  then show ?thesis unfolding extractAdditional_ID z .
qed

lemma extract_Score:
  "Score (extractSearchResult objMap) =
     (case map_of objMap ''_additional'' of
        Some (JObj additional) \<Rightarrow>
          (case map_of additional ''score'' of Some (JNum x) \<Rightarrow> x | _ \<Rightarrow> 0)
      | _ \<Rightarrow> 0)"
proof -
  let ?r0 = "zeroSearchResult\<lparr>Metadata := Map.empty\<rparr>"
  have z: "Score ?r0 = 0" by (simp add: zeroSearchResult_def)
  have "Score (extractSearchResult objMap) = Score (extractAdditional objMap ?r0)"
    by (simp add: extractSearchResult_def Let_def extractMetadata_def extractContent_Score)
  then show ?thesis unfolding extractAdditional_Score z .
qed

lemma extract_Text:
  "Text (extractSearchResult objMap) =
     (case map_of objMap ''message'' of
        Some (JStr message) \<Rightarrow> message
      | _ \<Rightarrow>
        (case map_of objMap ''content'' of
           Some (JStr content) \<Rightarrow> content
         | _ \<Rightarrow>
           (case map_of objMap ''title'' of
              Some (JStr title) \<Rightarrow> title
            | _ \<Rightarrow> [])))"
proof -
  let ?r0 = "zeroSearchResult\<lparr>Metadata := Map.empty\<rparr>"
  have z: "Text (extractAdditional objMap ?r0) = []"
    by (simp add: extractAdditional_Text zeroSearchResult_def)
  have "Text (extractSearchResult objMap) = Text (extractContent objMap (extractAdditional objMap ?r0))"
    by (simp add: extractSearchResult_def Let_def extractMetadata_def)
  then show ?thesis unfolding extractContent_Text z .
qed

lemma parse_empty_object:
  "navigate (JObj [(''Get'', JObj [(''KnowledgeBase'', JArr [JObj []])])])
       (GetResultPath ''KnowledgeBase'') = Inr (JArr [JObj []])
   \<and> map_of [] ''_additional'' = (None :: json option)
   \<and> parseSearchResults [(''Get'', JObj [(''KnowledgeBase'', JArr [JObj []])])]
       (GetResultPath ''KnowledgeBase'')
     = Inr [\<lparr> ID = [], DocID = [], Score = 0, Text = [], Metadata = Map.empty,
              Source = SourceStatic, Timestamp = None \<rparr>]"
  by (auto simp add: parseSearchResults_def GetResultPath_def extractSearchResult_def
      extractAdditional_def extractContent_def extractMetadata_def
      zeroSearchResult_def Let_def intro!: ext)

text \<open>
  Claim C7, as the code has it. Parsing is total: every type assertion of the source has
  the two-result form, so no decoded response makes it panic. A key of the navigation path
  that is missing, or met on a value that is not an object, yields the error
  ``key not found'' or ``unexpected type at path'' for that key, and only the path yields
  errors. When the path resolves, a list is returned: empty when the value reached is not
  an array, otherwise one record tagged \<open>static\<close> for each array element that is an
  object, other elements being skipped. Within a record, a missing or wrong-typed
  \<open>_additional\<close>, \<open>_additional.id\<close> or \<open>_additional.score\<close> leaves the identifier empty
  and the score 0, and the text is the first of \<open>message\<close>, \<open>content\<close>, \<open>title\<close> that is
  a string, or empty: no error is raised for them.
\<close>

theorem C7_parse_errors_and_defaults:
  "(case parseSearchResults data path of
      Inl err \<Rightarrow>
        navigate (JObj data) path = Inl err
        \<and> (\<exists>key \<in> set path. err = Errorf (''key not found: '' @ key)
                            \<or> err = Errorf (''unexpected type at path '' @ key))
    | Inr results \<Rightarrow>
        (\<exists>current. navigate (JObj data) path = Inr current
           \<and> results = (case current of JArr objs \<Rightarrow> staticObjects objs | _ \<Rightarrow> []))
        \<and> (\<forall>r \<in> set results. Source r = SourceStatic))
   \<and> staticObjects objs =
        map (\<lambda>obj. case obj of
                     JObj objMap \<Rightarrow> (extractSearchResult objMap)\<lparr>Source := SourceStatic\<rparr>
                   | _ \<Rightarrow> zeroSearchResult)
            (filter (\<lambda>obj. case obj of JObj _ \<Rightarrow> True | _ \<Rightarrow> False) objs)
   \<and> ID (extractSearchResult objMap) =
        (case map_of objMap ''_additional'' of
           Some (JObj additional) \<Rightarrow>
             (case map_of additional ''id'' of Some (JStr i) \<Rightarrow> i | _ \<Rightarrow> [])
         | _ \<Rightarrow> [])
   \<and> Score (extractSearchResult objMap) =
        (case map_of objMap ''_additional'' of
           Some (JObj additional) \<Rightarrow>
             (case map_of additional ''score'' of Some (JNum x) \<Rightarrow> x | _ \<Rightarrow> 0)
         | _ \<Rightarrow> 0)
   \<and> Text (extractSearchResult objMap) =
        (case map_of objMap ''message'' of
           Some (JStr message) \<Rightarrow> message
         | _ \<Rightarrow>
           (case map_of objMap ''content'' of
              Some (JStr content) \<Rightarrow> content
            | _ \<Rightarrow>
              (case map_of objMap ''title'' of
                 Some (JStr title) \<Rightarrow> title
               | _ \<Rightarrow> [])))"
proof -
  have A: "(case parseSearchResults data path of
      Inl err \<Rightarrow>
        navigate (JObj data) path = Inl err
        \<and> (\<exists>key \<in> set path. err = Errorf (''key not found: '' @ key)
                            \<or> err = Errorf (''unexpected type at path '' @ key))
    | Inr results \<Rightarrow>
        (\<exists>current. navigate (JObj data) path = Inr current
           \<and> results = (case current of JArr objs \<Rightarrow> staticObjects objs | _ \<Rightarrow> []))
        \<and> (\<forall>r \<in> set results. Source r = SourceStatic))"
  proof (cases "navigate (JObj data) path")
    case (Inl err)
    then have "parseSearchResults data path = Inl err"
      by (simp add: parseSearchResults_Inl)
    then show ?thesis using Inl navigate_error [OF Inl] by simp
  next
    case (Inr cur)
    have p: "parseSearchResults data path =
        Inr (case cur of JArr objs \<Rightarrow> staticObjects objs | _ \<Rightarrow> [])"
      by (rule parseSearchResults_Inr [OF Inr])
    have "\<forall>r \<in> set (case cur of JArr objs \<Rightarrow> staticObjects objs | _ \<Rightarrow> []).
            Source r = SourceStatic"
      by (cases cur) (auto dest: staticObjects_Source)
    then show ?thesis using Inr p by simp
  qed
  show ?thesis
    using A staticObjects_eq [of objs] extract_ID [of objMap] extract_Score [of objMap]
      extract_Text [of objMap]
    by (simp only: simp_thms)
qed

text \<open>
  The theorem on a response without the collection key, on one whose \<open>Get\<close> value is a
  string, and on records with a numeric identifier, a textual score and a numeric
  \<open>content\<close>.
\<close>

theorem C7_parse_errors_and_defaults_witness:
  "parseSearchResults [(''Get'', JObj [])] (GetResultPath ''KnowledgeBase'')
     = Inl (Errorf ''key not found: KnowledgeBase'')
   \<and> parseSearchResults [(''Get'', JStr ''x'')] (GetResultPath ''KnowledgeBase'')
     = Inl (Errorf ''unexpected type at path KnowledgeBase'')
   \<and> ID (extractSearchResult [(''_additional'', JObj [(''id'', JNum 7)])]) = []
   \<and> Score (extractSearchResult [(''_additional'', JObj [(''score'', JStr ''high'')])]) = 0
   \<and> Text (extractSearchResult [(''title'', JStr ''t''), (''content'', JNum 1)]) = ''t''"
  using C7_parse_errors_and_defaults
    [of "[(''Get'', JObj [])]" "GetResultPath ''KnowledgeBase''" "[]"
        "[(''_additional'', JObj [(''id'', JNum 7)])]"]
    C7_parse_errors_and_defaults
    [of "[(''Get'', JStr ''x'')]" "GetResultPath ''KnowledgeBase''" "[]"
        "[(''_additional'', JObj [(''score'', JStr ''high'')])]"]
    C7_parse_errors_and_defaults
    [of "[]" "[]" "[]" "[(''title'', JStr ''t''), (''content'', JNum 1)]"]
  by (simp add: parseSearchResults_def GetResultPath_def)

text \<open>
  Claim C7 as stated fails: a response whose only record is the empty object, with no
  \<open>_additional\<close> and no text field, is parsed without error into one record with empty
  identifier, score 0 and empty text.
\<close>

theorem C7_missing_fields_counterexample:
  "navigate (JObj [(''Get'', JObj [(''KnowledgeBase'', JArr [JObj []])])])
       (GetResultPath ''KnowledgeBase'') = Inr (JArr [JObj []])
   \<and> map_of [] ''_additional'' = (None :: json option)
   \<and> parseSearchResults [(''Get'', JObj [(''KnowledgeBase'', JArr [JObj []])])]
       (GetResultPath ''KnowledgeBase'')
     = Inr [\<lparr> ID = [], DocID = [], Score = 0, Text = [], Metadata = Map.empty,
              Source = SourceStatic, Timestamp = None \<rparr>]"
  by (rule parse_empty_object)

subsection \<open>Adapter: pruning\<close>

lemma executeBatchDelete_zero:
  "snd (executeBatchDelete wc e query) = Inr n \<Longrightarrow> n = 0"
  by (auto simp: executeBatchDelete_def split: prod.splits sum.splits)

lemma client_Prune_zero:
  "snd (client_PruneOldConversations wc e now maxAge) = Inr n \<Longrightarrow> n = 0"
  by (auto simp: client_PruneOldConversations_def Let_def
      split: prod.splits sum.splits dest: executeBatchDelete_zero [of _ _ _ n]
      dest!: arg_cong [where f = snd])

lemma Prune_zero:
  "snd (PruneOldConversations r e now maxAge) = Inr n \<Longrightarrow> n = 0"
  by (auto simp: PruneOldConversations_def split: if_splits prod.splits
      dest: client_Prune_zero [of _ _ _ _ n] dest!: arg_cong [where f = snd])

lemma Prune_deletedTwo:
  "\<not> closed_r r \<Longrightarrow> snd (PruneOldConversations r deletedTwo now maxAge) = Inr 0"
  by (simp add: PruneOldConversations_def client_PruneOldConversations_def
      executeBatchDelete_def executeGraphQL_def deletedTwo_def Let_def split: prod.splits)

text \<open>
  Claim C8 against the code. \<open>PruneOldConversations\<close> does not read the response of the
  batch-delete mutation: whenever it succeeds it returns 0. On a backing store that
  answers the mutation with the identifiers of two deleted objects, the default retriever
  reports 0 deleted.
\<close>

theorem C8_PruneOldConversations_reports_zero:
  "snd (PruneOldConversations openRetriever deletedTwo now maxAge) = Inr 0
   \<and> (case snd (PruneOldConversations r e now maxAge) of
         Inl err \<Rightarrow> True
       | Inr deleted \<Rightarrow> deleted = 0)"
proof -
  have "\<not> closed_r openRetriever" by (simp add: openRetriever_def)
  then have A: "snd (PruneOldConversations openRetriever deletedTwo now maxAge) = Inr 0"
    by (rule Prune_deletedTwo)
  have B: "(case snd (PruneOldConversations r e now maxAge) of
         Inl err \<Rightarrow> True
       | Inr deleted \<Rightarrow> deleted = 0)"
    using Prune_zero [of r e now maxAge]
    by (cases "snd (PruneOldConversations r e now maxAge)") simp_all
  show ?thesis using A B by simp
qed

subsection \<open>Coordinator: hybrid search\<close>

lemma openStore_alloc: "alloc emptyStore (structOf DefaultMergeConfig) = (openStore, 0)"
  by (simp add: alloc_def emptyStore_def openStore_def)

lemma testStore_alloc: "alloc openStore testUpdateConfig = (testStore, 1)"
  by (simp add: alloc_def openStore_def testStore_def)

lemma openStore_default: "deref openStore 0 = structOf DefaultMergeConfig"
  by (simp add: deref_def openStore_def)

lemma testStore_cells:
  "deref testStore 0 = structOf DefaultMergeConfig"
  "deref testStore 1 = testUpdateConfig"
  by (simp_all add: deref_def testStore_def)

lemma openRetriever_merger:
  "readMerger openStore (merger openRetriever) = defaultMerger"
  "readMerger testStore (merger openRetriever) = defaultMerger"
  using defaultMerger_new(2) [OF openStore_default] defaultMerger_new(2) [OF testStore_cells(1)]
  by (simp_all add: openRetriever_def)

lemma openRetriever_new:
  "NewAgentRAGRetriever emptyStore ''http://localhost:8080'' [] None None =
     (openStore, Inr openRetriever)"
proof -
  have v: "Validate (deref openStore 0) = None"
    by (simp add: openStore_default Validate_def structOf_def DefaultMergeConfig_def)
  have td: "NewTemporalDecay (HalfLifeMinutes (ideal (deref openStore 0)))
              (MinTemporalWeight (ideal (deref openStore 0)))
              (TemporalDecayEnabled (ideal (deref openStore 0)))
            = \<lparr> halfLifeMinutes = 30, minWeight = 1 / 100, enabled = True \<rparr>"
    by (simp add: openStore_default ideal_structOf NewTemporalDecay_def DefaultMergeConfig_def)
  show ?thesis
    by (simp add: NewAgentRAGRetriever_def NewWeaviateClient_def openStore_alloc
        defaultMerger_new(1) [OF openStore_default] v td openRetriever_def Let_def)
qed

lemma executeGraphQL_snd:
  "snd (executeGraphQL wc e q) =
     (case graphqlResponse e q of
        Inl err \<Rightarrow> Inl err
      | Inr g \<Rightarrow> if length (Errors g) > 0
                 then Inl (Errorf (''GraphQL error: '' @ hd (Errors g)))
                 else Inr (Data g))"
  by (simp add: executeGraphQL_def Let_def split: sum.splits)

lemma executeGraphQL_fst:
  "fst (executeGraphQL wc e q) =
     wc\<lparr>http := (http wc)\<lparr>requests := add_mset (PostGraphQL q) (requests (http wc))\<rparr>\<rparr>"
  by (simp add: executeGraphQL_def Let_def split: sum.splits)

lemma executeGraphQL_config:
  "executeGraphQL wc e q = (wc', res) \<Longrightarrow> wc_config wc' = wc_config wc"
  using executeGraphQL_fst [of wc e q] by simp

lemma client_SearchStatic_config:
  "wc_config (fst (client_SearchStatic wc e q)) = wc_config wc"
proof -
  obtain wc' res where x: "executeGraphQL wc e
       (HybridQuery (NewQueryBuilder (StaticIndexName (wc_config wc)) (qLimit q)) (qText q)
          (qVector q) (1 / 2)) = (wc', res)"
    by (cases "executeGraphQL wc e
       (HybridQuery (NewQueryBuilder (StaticIndexName (wc_config wc)) (qLimit q)) (qText q)
          (qVector q) (1 / 2))")
  have "wc_config wc' = wc_config wc"
    by (rule executeGraphQL_config [OF x])
  then show ?thesis
    by (cases res) (simp_all add: client_SearchStatic_def Let_def x)
qed

lemma client_SearchStatic_snd:
  "snd (client_SearchStatic wc e q) =
     (let name = StaticIndexName (wc_config wc)
      in case snd (executeGraphQL wc e
                     (HybridQuery (NewQueryBuilder name (qLimit q)) (qText q) (qVector q) (1 / 2))) of
           Inl err \<Rightarrow> Inl (ErrorfW ''static search failed: '' err)
         | Inr response \<Rightarrow> parseSearchResults response (GetResultPath name))"
  by (auto simp add: client_SearchStatic_def Let_def split: prod.splits sum.splits
      dest: executeGraphQL_config)

lemma client_SearchConversation_snd:
  "snd (client_SearchConversation wc e q) =
     (let name = ConversationIndexName (wc_config wc);
          sinceTime = (case qTimeRange q of Some tr \<Rightarrow> formatRFC3339 e (Since tr) | None \<Rightarrow> [])
      in case snd (executeGraphQL wc e
                     (ConversationQuery (NewQueryBuilder name (qLimit q)) (qVector q) sinceTime)) of
           Inl err \<Rightarrow> Inl (ErrorfW ''conversation search failed: '' err)
         | Inr response \<Rightarrow> parseConversationResults e response (GetResultPath name))"
  by (auto simp add: client_SearchConversation_def Let_def split: prod.splits sum.splits
      dest: executeGraphQL_config)

lemma client_SearchConversation_same:
  "wc_config wc' = wc_config wc \<Longrightarrow>
   snd (client_SearchConversation wc' e q) = snd (client_SearchConversation wc e q)"
  by (simp add: client_SearchConversation_snd executeGraphQL_snd)

lemma SearchHybrid_open:
  assumes "\<not> closed_r r"
  shows "snd (SearchHybrid r \<sigma> e now ch query) =
           hybridOutcome (readMerger \<sigma> (merger r)) query now ch
             (snd (client_SearchStatic (client r) e query))
             (snd (client_SearchConversation (client r) e query))"
proof -
  obtain c1 so where s: "client_SearchStatic (client r) e query = (c1, so)"
    by (cases "client_SearchStatic (client r) e query")
  obtain c2 co where c: "client_SearchConversation c1 e query = (c2, co)"
    by (cases "client_SearchConversation c1 e query")
  have "wc_config c1 = wc_config (client r)"
    using client_SearchStatic_config [of "client r" e query] by (simp add: s)
  from client_SearchConversation_same [OF this, of e query]
  have co: "snd (client_SearchConversation (client r) e query) = co" by (simp add: c)
  show ?thesis
    using assms by (simp add: SearchHybrid_def s c co)
qed

lemma hybridOutcome_cases:
  "hybridOutcome mg query now ch (Inl staticErr) (Inl convErr) =
     Inl (Errorf (''both searches failed: static='' @ Error staticErr
                  @ '', conversation='' @ Error convErr))"
  "hybridOutcome mg query now ch (Inl staticErr) (Inr convResults) =
     Inr (applyLimit query (Merge mg [] convResults now ch))"
  "hybridOutcome mg query now ch (Inr staticResults) (Inl convErr) =
     Inr (applyLimit query (Merge mg staticResults [] now ch))"
  "hybridOutcome mg query now ch (Inr staticResults) (Inr convResults) =
     Inr (applyLimit query (Merge mg staticResults convResults now ch))"
  by (simp_all add: hybridOutcome_def Let_def)


subsubsection \<open>Scenario S3\<close>

lemma s3_static_query:
  "HybridQuery (NewQueryBuilder ''KnowledgeBase'' 10) ''test query'' [] (1 / 2) =
     ''{ Get { KnowledgeBase(hybrid:{query:'' @ [CHR 0x22] @ ''test query'' @ [CHR 0x22]
     @ '',vector:[],alpha:0.50},limit:10){_additional{id,score,vector}title,content}}}''"
  by (simp add: HybridQuery_def NewQueryBuilder_def formatVector_def fmt_alpha fmt_limit_10
      escapeGraphQL_def ReplaceAll_def buildFieldList_def Let_def)

lemma s3_conv_query:
  "ConversationQuery (NewQueryBuilder ''Conversation'' 10) [] [] =
     ''{ Get { Conversation(nearVector:{vector:[]},limit:10)''
     @ ''{_additional{id,score}message,speaker,timestamp}}}''"
  by (simp add: ConversationQuery_def NewQueryBuilder_def formatVector_def fmt_limit_10 Let_def)

lemma s3_static:
  "snd (client_SearchStatic (client openRetriever) (s3Env now) testQuery) =
     Inl (ErrorfW ''static search failed: '' (Transport ''connection refused''))"
proof -
  have g: "snd (executeGraphQL (client openRetriever) (s3Env now)
              (HybridQuery (NewQueryBuilder ''KnowledgeBase'' 10) ''test query'' [] (1 / 2)))
           = Inl (Transport ''connection refused'')"
    unfolding executeGraphQL_snd s3_static_query by (simp add: s3Env_def)
  show ?thesis
    unfolding client_SearchStatic_snd
    using g
    by (simp add: openRetriever_def DefaultIndexConfig_def testQuery_def Let_def)
qed

lemma s3_extract:
  "extractSearchResult
     [(''_additional'', JObj [(''id'', JStr ''Y''), (''score'', JNum (7 / 10))]),
      (''message'', JStr ''hello''), (''speaker'', JStr ''user''),
      (''timestamp'', JStr s3Stamp)]
   = \<lparr> ID = ''Y'', DocID = ''Y'', Score = 7 / 10, Text = ''hello'',
       Metadata = [''speaker'' \<mapsto> JStr ''user'', ''timestamp'' \<mapsto> JStr s3Stamp],
       Source = [], Timestamp = None \<rparr>"
  by (auto simp add: extractSearchResult_def extractAdditional_def extractContent_def
      extractMetadata_def zeroSearchResult_def Let_def intro!: ext)

lemma s3_conv:
  "snd (client_SearchConversation (client openRetriever) (s3Env now) testQuery) =
     Inr [s3Record now (7 / 10)]"
proof -
  have g: "snd (executeGraphQL (client openRetriever) (s3Env now)
              (ConversationQuery (NewQueryBuilder ''Conversation'' 10) [] []))
           = Inr (Data (projr (graphqlResponse (s3Env now)
                   (ConversationQuery (NewQueryBuilder ''Conversation'' 10) [] []))))"
    unfolding executeGraphQL_snd s3_conv_query by (simp add: s3Env_def)
  have p: "parseConversationResults (s3Env now)
             (Data (projr (graphqlResponse (s3Env now)
                   (ConversationQuery (NewQueryBuilder ''Conversation'' 10) [] []))))
             (GetResultPath ''Conversation'') = Inr [s3Record now (7 / 10)]"
    unfolding s3_conv_query
    by (simp add: s3Env_def parseConversationResults_def GetResultPath_def s3_extract
        s3Record_def Let_def)
  show ?thesis
    unfolding client_SearchConversation_snd
    using g p
    by (simp add: openRetriever_def DefaultIndexConfig_def testQuery_def Let_def)
qed

lemma s3_merge:
  "Merge defaultMerger [] [s3Record now (7 / 10)] now s3Choices = [s3Record now (7 / 25)]"
  by (simp add: Merge_def mergeWeighted_def weightedMaps_def collectResults_def
      sortByScoreDesc_def defaultMerger_def DefaultMergeConfig_def s3Record_def s3Choices_def
      convWeightedScore_def Apply_enabled Sub_def Minutes_eq minDuration_def maxDuration_def
      Let_def)

lemma s3_hybrid:
  "snd (SearchHybrid openRetriever openStore (s3Env now) now s3Choices testQuery) =
     Inr [s3Record now (7 / 25)]"
proof -
  have o: "\<not> closed_r openRetriever"
    by (simp add: openRetriever_def)
  show ?thesis
    unfolding SearchHybrid_open [OF o] s3_static s3_conv hybridOutcome_cases
      openRetriever_merger(1) s3_merge
    by (simp add: applyLimit_def testQuery_def)
qed

lemma s3_order:
  "iterationOrder (keyOrder s3Choices)
     (fst (mergeMapsOf defaultMerger [] [s3Record now (7 / 10)] now s3Choices))"
  by (simp add: iterationOrder_def mergeMapsOf_def defaultMerger_def DefaultMergeConfig_def
      weightedMaps_dom s3Choices_def s3Record_def)

text \<open>
  Claim C2. On an open retriever, whatever the query, the environment and the store:
  when both sub-searches return an error, \<open>SearchHybrid\<close> returns no results and one
  composite error whose message names both; when exactly one returns an error, the empty
  list stands for the failing side, the surviving list is merged and truncated to the
  query's limit, and no error is returned; when both succeed, the merge of the two lists,
  truncated to the limit, is returned. The merge is the one of the retriever's merger,
  with the configuration its pointer leads to at the call. In scenario S3 (the static
  search meets a transport error, the conversation search returns \<open>Y = 0.7\<close> stamped with
  the reference time, default weights) the caller receives the list \<open>[Y = 0.28]\<close>.
\<close>

theorem C2_SearchHybrid_partial_failure:
  assumes "\<not> closed_r r"
  shows "(snd (client_SearchStatic (client r) e query) = Inl staticErr
          \<and> snd (client_SearchConversation (client r) e query) = Inl convErr \<longrightarrow>
            snd (SearchHybrid r \<sigma> e now ch query) =
              Inl (Errorf (''both searches failed: static='' @ Error staticErr
                           @ '', conversation='' @ Error convErr)))
       \<and> (snd (client_SearchStatic (client r) e query) = Inl staticErr
          \<and> snd (client_SearchConversation (client r) e query) = Inr convResults \<longrightarrow>
            snd (SearchHybrid r \<sigma> e now ch query) =
              Inr (applyLimit query (Merge (readMerger \<sigma> (merger r)) [] convResults now ch)))
       \<and> (snd (client_SearchStatic (client r) e query) = Inr staticResults
          \<and> snd (client_SearchConversation (client r) e query) = Inl convErr \<longrightarrow>
            snd (SearchHybrid r \<sigma> e now ch query) =
              Inr (applyLimit query (Merge (readMerger \<sigma> (merger r)) staticResults [] now ch)))
       \<and> (snd (client_SearchStatic (client r) e query) = Inr staticResults
          \<and> snd (client_SearchConversation (client r) e query) = Inr convResults \<longrightarrow>
            snd (SearchHybrid r \<sigma> e now ch query) =
              Inr (applyLimit query (Merge (readMerger \<sigma> (merger r)) staticResults convResults now ch)))
       \<and> snd (SearchHybrid openRetriever openStore (s3Env now) now s3Choices testQuery) =
            Inr [s3Record now (7 / 25)]"
  using SearchHybrid_open [OF assms, of \<sigma> e now ch query] s3_hybrid [of now]
  by (simp add: hybridOutcome_cases)

text \<open>
  The theorem on scenario S3 at clock reading 0: the static side fails, the conversation
  side succeeds, and the second case of the theorem gives the result.
\<close>

theorem C2_SearchHybrid_partial_failure_witness:
  "\<not> closed_r openRetriever
   \<and> snd (client_SearchStatic (client openRetriever) (s3Env 0) testQuery) =
       Inl (ErrorfW ''static search failed: '' (Transport ''connection refused''))
   \<and> snd (client_SearchConversation (client openRetriever) (s3Env 0) testQuery) =
       Inr [s3Record 0 (7 / 10)]
   \<and> iterationOrder (keyOrder s3Choices)
       (fst (mergeMapsOf (readMerger openStore (merger openRetriever)) []
               [s3Record 0 (7 / 10)] 0 s3Choices))
   \<and> snd (SearchHybrid openRetriever openStore (s3Env 0) 0 s3Choices testQuery) =
       Inr (applyLimit testQuery
              (Merge (readMerger openStore (merger openRetriever)) []
                 [s3Record 0 (7 / 10)] 0 s3Choices))
   \<and> applyLimit testQuery
         (Merge (readMerger openStore (merger openRetriever)) []
            [s3Record 0 (7 / 10)] 0 s3Choices)
       = [s3Record 0 (7 / 25)]"
proof -
  have o: "\<not> closed_r openRetriever"
    by (simp add: openRetriever_def)
  from C2_SearchHybrid_partial_failure [OF o, of "s3Env 0" testQuery
      "ErrorfW ''static search failed: '' (Transport ''connection refused'')" _
      openStore 0 s3Choices "[s3Record 0 (7 / 10)]"]
  have "snd (SearchHybrid openRetriever openStore (s3Env 0) 0 s3Choices testQuery) =
       Inr (applyLimit testQuery
              (Merge (readMerger openStore (merger openRetriever)) []
                 [s3Record 0 (7 / 10)] 0 s3Choices))"
    using s3_static [of 0] s3_conv [of 0] by blast
  then show ?thesis
    using o s3_static [of 0] s3_conv [of 0] s3_order [of 0] s3_merge [of 0]
    by (simp add: openRetriever_merger(1) applyLimit_def testQuery_def)
qed

subsection \<open>Coordinator: the closed state\<close>

lemma Close_closed: "closed_r (fst (Close r))"
  by (simp add: Close_def client_Close_def)

lemma Close_again: "closed_r r \<Longrightarrow> Close r = (r, None)"
  by (simp add: Close_def)

lemma Close_first:
  "\<not> closed_r r \<Longrightarrow>
   Close r = (r\<lparr>closed_r := True,
                client := (client r)\<lparr>http := (http (client r))\<lparr>idleClosed :=
                             Suc (idleClosed (http (client r)))\<rparr>\<rparr>\<rparr>, None)"
  by (simp add: Close_def client_Close_def)

lemma UpdateConfig_snd: "snd (UpdateConfig r \<sigma> p) = Validate (deref \<sigma> p)"
  by (simp add: UpdateConfig_def Let_def split: option.splits)

lemma UpdateConfig_frame:
  "closed_r (fst (UpdateConfig r \<sigma> p)) = closed_r r"
  "client (fst (UpdateConfig r \<sigma> p)) = client r"
  "indexConfig (fst (UpdateConfig r \<sigma> p)) = indexConfig r"
  by (simp_all add: UpdateConfig_def Let_def split: option.splits)

lemma perform_closed:
  assumes "closed_r r"
  shows "closed_r (fst (perform r c)) \<and> client (fst (perform r c)) = client r"
proof (cases c)
  case (CallUpdateConfig \<sigma> p)
  then show ?thesis using assms UpdateConfig_frame [of r \<sigma> p]
    by (simp split: prod.splits)
      (metis fst_conv)
qed (use assms in \<open>simp_all add: SearchStatic_def SearchConversation_def SearchHybrid_def
      AddConversationTurn_def AddKnowledgeDocument_def PruneOldConversations_def
      HealthCheck_def Close_def\<close>)

lemma run_closed:
  "closed_r r \<Longrightarrow> closed_r (fst (run r calls)) \<and> client (fst (run r calls)) = client r"
proof (induction calls arbitrary: r)
  case Nil
  then show ?case by simp
next
  case (Cons c calls)
  obtain r' x where p: "perform r c = (r', x)" by (cases "perform r c")
  have r': "closed_r r'" "client r' = client r"
    using perform_closed [OF Cons.prems, of c] by (simp_all add: p)
  obtain r'' xs where q: "run r' calls = (r'', xs)" by (cases "run r' calls")
  have "closed_r r'' \<and> client r'' = client r'"
    using Cons.IH [OF r'(1)] by (simp add: q)
  then show ?case using r'(2) by (simp add: p q)
qed

text \<open>
  Claim C3, as the code has it. \<open>Close\<close> leaves the retriever closed, and a second \<open>Close\<close>
  returns nil and changes nothing (the transport is not closed again). After \<open>Close\<close> and
  any further calls (\<open>history\<close>), the retriever is still closed, its adapter is as \<open>Close\<close>
  left it, and each of \<open>SearchStatic\<close>, \<open>SearchConversation\<close>, \<open>SearchHybrid\<close>,
  \<open>AddConversationTurn\<close>, \<open>AddKnowledgeDocument\<close>, \<open>PruneOldConversations\<close> and
  \<open>HealthCheck\<close> returns the closed-retriever error and changes nothing. \<open>UpdateConfig\<close>
  does not look at the closed flag: it returns what \<open>Validate\<close> returns on the struct its
  argument points to, as on an open retriever, touches neither the adapter nor the flag.
\<close>

theorem C3_closed_retriever_rejects_operations:
  "closed_r (fst (Close r0))
   \<and> Close (fst (Close r0)) = (fst (Close r0), None)
   \<and> closed_r (fst (run (fst (Close r0)) history))
   \<and> client (fst (run (fst (Close r0)) history)) = client (fst (Close r0))
   \<and> SearchStatic (fst (run (fst (Close r0)) history)) e query =
        (fst (run (fst (Close r0)) history), Inl ErrClosedRetriever)
   \<and> SearchConversation (fst (run (fst (Close r0)) history)) e now query =
        (fst (run (fst (Close r0)) history), Inl ErrClosedRetriever)
   \<and> SearchHybrid (fst (run (fst (Close r0)) history)) \<sigma> e now ch query =
        (fst (run (fst (Close r0)) history), Inl ErrClosedRetriever)
   \<and> AddConversationTurn (fst (run (fst (Close r0)) history)) e now message speaker metadata =
        (fst (run (fst (Close r0)) history), Inl ErrClosedRetriever)
   \<and> AddKnowledgeDocument (fst (run (fst (Close r0)) history)) e now title content metadata =
        (fst (run (fst (Close r0)) history), Inl ErrClosedRetriever)
   \<and> PruneOldConversations (fst (run (fst (Close r0)) history)) e now maxAge =
        (fst (run (fst (Close r0)) history), Inl ErrClosedRetriever)
   \<and> HealthCheck (fst (run (fst (Close r0)) history)) e =
        (fst (run (fst (Close r0)) history), Some ErrClosedRetriever)
   \<and> Close (fst (run (fst (Close r0)) history)) = (fst (run (fst (Close r0)) history), None)
   \<and> snd (UpdateConfig (fst (run (fst (Close r0)) history)) \<sigma> p) = Validate (deref \<sigma> p)
   \<and> closed_r (fst (UpdateConfig (fst (run (fst (Close r0)) history)) \<sigma> p))
   \<and> client (fst (UpdateConfig (fst (run (fst (Close r0)) history)) \<sigma> p)) = client (fst (Close r0))"
proof -
  let ?r = "fst (run (fst (Close r0)) history)"
  have c0: "closed_r (fst (Close r0))" by (rule Close_closed)
  have c: "closed_r ?r" and cl: "client ?r = client (fst (Close r0))"
    using run_closed [OF c0, of history] by simp_all
  show ?thesis
    using c0 c cl UpdateConfig_snd [of ?r \<sigma> p] UpdateConfig_frame [of ?r \<sigma> p]
    by (simp add: Close_again SearchStatic_def SearchConversation_def SearchHybrid_def
        AddConversationTurn_def AddKnowledgeDocument_def PruneOldConversations_def
        HealthCheck_def)
qed

text \<open>
  Claim C3 as stated fails for \<open>UpdateConfig\<close>: on the default retriever after \<open>Close\<close>, the
  configuration of \<^verbatim>\<open>TestAgentRAGRetriever_ConfigUpdate\<close> is installed and nil is
  returned, not the closed-retriever error. (The test's struct is at address 1 of
  \<open>testStore\<close>, the default one at address 0.)
\<close>

theorem C3_UpdateConfig_after_Close_counterexample:
  "closed_r (fst (Close openRetriever))
   \<and> snd (UpdateConfig (fst (Close openRetriever)) testStore 1) = None
   \<and> snd (UpdateConfig (fst (Close openRetriever)) testStore 1) \<noteq> Some ErrClosedRetriever
   \<and> deref testStore (config (fst (UpdateConfig (fst (Close openRetriever)) testStore 1)))
       = testUpdateConfig
   \<and> deref testStore (config (fst (Close openRetriever))) = structOf DefaultMergeConfig
   \<and> testUpdateConfig \<noteq> structOf DefaultMergeConfig"
  by (simp add: Close_def client_Close_def UpdateConfig_def Validate_def testUpdateConfig_def
      openRetriever_def DefaultMergeConfig_def structOf_def deref_def testStore_def Let_def)

subsection \<open>Coordinator: configuration\<close>





















end
